theory Spec2Isabelle
  imports Complex_Main
begin

section \<open>Enumerations of the image library\<close>

text \<open>
  The integer-backed enumerations used by \<^verbatim>\<open>image.go\<close>. Each datatype lists the
  constants that the file names; every other value of the underlying integer type is
  kept as an \<open>Other\<close> constructor.
\<close>

datatype ImageType =
    ImageTypeUnknown | ImageTypeGIF | ImageTypeJPEG | ImageTypePNG | ImageTypeTIFF
  | ImageTypeWEBP | ImageTypeHEIF | ImageTypeAVIF | ImageTypeJP2K | ImageTypeOther nat

datatype Interpretation =
    InterpretationRGB | InterpretationSRGB | InterpretationLCH | InterpretationHSV
  | InterpretationCMYK | InterpretationOther nat

datatype BandFormat =
    BandFormatNotSet | BandFormatUchar | BandFormatChar | BandFormatOther nat

datatype Angle = Angle0 | Angle90 | Angle180 | Angle270 | AngleOther nat

datatype Direction = DirectionHorizontal | DirectionVertical

datatype Intent = IntentPerceptual | IntentOther nat

type_synonym Kernel = int
type_synonym SubsampleMode = int
type_synonym PngFilter = int
type_synonym TiffCompression = int
type_synonym TiffPredictor = int
type_synonym bytes = "nat list"

section \<open>Errors\<close>

text \<open>
  \<open>EngineError\<close> is an error reported by a native primitive, \<open>LinearLengthMismatch\<close>
  is \<^verbatim>\<open>errors.New("a and b must be of same length")\<close>, \<open>CannotSave\<close> is the
  \<^verbatim>\<open>fmt.Errorf("cannot save to %#v", ...)\<close> of \<^verbatim>\<open>Export\<close>. \<open>NilDereference\<close> stands
  for the run-time panic of reading a field through a nil native pointer (a closed
  Handle); it is not an error value that Go returns.
\<close>

datatype error = EngineError nat | LinearLengthMismatch | CannotSave ImageType | NilDereference

section \<open>Export parameter sets\<close>

record ExportParams =
  Format :: ImageType
  Quality :: int
  Compression :: int
  Interlaced :: bool
  Lossless :: bool
  Effort :: int
  StripMetadata :: bool
  OptimizeCoding :: bool
  SubsampleMode :: SubsampleMode
  TrellisQuant :: bool
  OvershootDeringing :: bool
  OptimizeScans :: bool
  QuantTable :: int
  Speed :: int

record JpegExportParams =
  jpegStripMetadata :: bool
  jpegQuality :: int
  jpegInterlace :: bool
  jpegOptimizeCoding :: bool
  jpegSubsampleMode :: SubsampleMode
  jpegTrellisQuant :: bool
  jpegOvershootDeringing :: bool
  jpegOptimizeScans :: bool
  jpegQuantTable :: int

record 'f PngExportParams =
  pngStripMetadata :: bool
  pngCompression :: int
  pngFilter :: PngFilter
  pngInterlace :: bool
  pngQuality :: int
  pngPalette :: bool
  pngDither :: 'f
  pngBitdepth :: int
  pngProfile :: string

record WebpExportParams =
  webpStripMetadata :: bool
  webpQuality :: int
  webpLossless :: bool
  webpNearLossless :: bool
  webpReductionEffort :: int
  webpIccProfile :: string

record HeifExportParams =
  heifQuality :: int
  heifLossless :: bool

record TiffExportParams =
  tiffStripMetadata :: bool
  tiffQuality :: int
  tiffCompression :: TiffCompression
  tiffPredictor :: TiffPredictor

record 'f GifExportParams =
  gifStripMetadata :: bool
  gifQuality :: int
  gifDither :: 'f
  gifEffort :: int
  gifBitdepth :: int

record AvifExportParams =
  avifStripMetadata :: bool
  avifQuality :: int
  avifLossless :: bool
  avifSpeed :: int

record Jp2kExportParams =
  jp2kQuality :: int
  jp2kLossless :: bool
  jp2kTileWidth :: int
  jp2kTileHeight :: int
  jp2kSubsampleMode :: SubsampleMode

section \<open>The native engine\<close>

text \<open>
  A native image object, reduced to the header fields and metadata that \<^verbatim>\<open>image.go\<close>
  reads: \<^verbatim>\<open>Xsize\<close>, \<^verbatim>\<open>Ysize\<close>, \<^verbatim>\<open>Bands\<close>, \<^verbatim>\<open>BandFmt\<close>, \<^verbatim>\<open>Type\<close>, the answer of
  \<^verbatim>\<open>has_alpha_channel\<close>, the \<^verbatim>\<open>n-pages\<close>, \<^verbatim>\<open>page-height\<close> and orientation
  attributes and whether an ICC profile is embedded.
\<close>

record VipsImage =
  Xsize :: int
  Ysize :: int
  Bands :: int
  BandFmt :: BandFormat
  Type :: Interpretation
  has_alpha_channel :: bool
  n_pages :: int
  page_height :: int
  orientation :: int
  icc_profile :: bool

text \<open>
  The operation primitives that produce a new native object from the current one, with
  their parameters. \<open>'f\<close> is the type of \<^verbatim>\<open>float64\<close> values.
\<close>

datatype 'f op =
    OpCopyImage
  | OpToColorSpace Interpretation
  | OpLinear "'f list" "'f list" int
  | OpFlip Direction
  | OpGrid int int int
  | OpRotate Angle
  | OpPremultiplyAlpha
  | OpUnpremultiplyAlpha
  | OpCast BandFormat
  | OpResizeWithVScale 'f 'f Kernel
  | OpICCTransform string string Intent int bool

text \<open>The encode primitives, one per codec, with the parameter set they receive.\<close>

datatype 'f saveReq =
    SaveJPEG JpegExportParams
  | SavePNG "'f PngExportParams"
  | SaveWebP WebpExportParams
  | SaveHEIF HeifExportParams
  | SaveTIFF TiffExportParams
  | SaveGIF "'f GifExportParams"
  | SaveAVIF AvifExportParams
  | SaveJP2K Jp2kExportParams

text \<open>
  Everything \<^verbatim>\<open>image.go\<close> uses but does not define is a field of the environment: the
  primitives (\<open>prim\<close>, \<open>encode\<close>: pure functions from a native object to a new one or an
  error), \<^verbatim>\<open>IsTypeSupported\<close>, the \<^verbatim>\<open>float64\<close> operations that the file applies
  (conversion from \<^verbatim>\<open>int\<close>, multiplication, truncating conversion to \<^verbatim>\<open>int\<close>), and the
  constants declared in other files.
\<close>

record 'f Env =
  prim :: "'f op \<Rightarrow> VipsImage \<Rightarrow> error + VipsImage"
  encode :: "'f saveReq \<Rightarrow> VipsImage \<Rightarrow> error + bytes"
  IsTypeSupported :: "ImageType \<Rightarrow> bool"
  f64_of_int :: "int \<Rightarrow> 'f"
  f64_mul :: "'f \<Rightarrow> 'f \<Rightarrow> 'f"
  f64_to_int :: "'f \<Rightarrow> int"
  SRGBV2MicroICCProfilePath :: string
  SGrayV2MicroICCProfilePath :: string
  PngFilterNone :: PngFilter
  TiffCompressionLzw :: TiffCompression
  TiffCompressionNone :: TiffCompression
  TiffPredictorHorizontal :: TiffPredictor

text \<open>
  What the native layer is asked to do, in order: a primitive invoked, an encoder
  invoked, a metadata attribute written in place, a reference released.
\<close>

datatype 'f event =
    Invoke "'f op"
  | Encode "'f saveReq"
  | SetPageHeightAttr nat int
  | SetNPagesAttr nat int
  | Release nat

text \<open>
  The native heap: the object at address \<open>a\<close> is \<open>heap w ! a\<close>; a new object is appended.
  A pointer is \<open>None\<close> (nil) or \<open>Some a\<close>.
\<close>

record 'f World =
  heap :: "VipsImage list"
  trace :: "'f event list"

type_synonym ptr = "nat option"

text \<open>
  Modelled from the spec: the wrappers around the native calls are declared outside
  \<^verbatim>\<open>image.go\<close>. A primitive is a pure function from the native object behind the pointer
  to a new native object or an error; it never mutates its input. A call through a nil
  pointer is \<open>NilDereference\<close>. The same holds for the encoders, which produce a buffer.
\<close>

definition deref :: "'f World \<Rightarrow> ptr \<Rightarrow> VipsImage option" where
  "deref w p = (case p of None \<Rightarrow> None
     | Some a \<Rightarrow> if a < length (heap w) then Some (heap w ! a) else None)"

definition callPrim :: "'f Env \<Rightarrow> 'f op \<Rightarrow> ptr \<Rightarrow> 'f World \<Rightarrow> (error + nat) \<times> 'f World" where
  "callPrim E f p w = (case deref w p of
       None \<Rightarrow> (Inl NilDereference, w)
     | Some img \<Rightarrow> (case prim E f img of
           Inl e \<Rightarrow> (Inl e, w\<lparr>trace := trace w @ [Invoke f]\<rparr>)
         | Inr out \<Rightarrow> (Inr (length (heap w)),
                       w\<lparr>heap := heap w @ [out], trace := trace w @ [Invoke f]\<rparr>)))"

definition callEncode :: "'f Env \<Rightarrow> 'f saveReq \<Rightarrow> ptr \<Rightarrow> 'f World \<Rightarrow> (error + bytes) \<times> 'f World" where
  "callEncode E q p w = (case deref w p of
       None \<Rightarrow> (Inl NilDereference, w)
     | Some img \<Rightarrow> (encode E q img, w\<lparr>trace := trace w @ [Encode q]\<rparr>))"

text \<open>
  Modelled from the spec: \<^verbatim>\<open>clearImage\<close> (declared in \<^verbatim>\<open>image.go\<close> as a call of the
  native \<^verbatim>\<open>clear_image\<close>) drops one reference to the object; the model records the
  release.
\<close>

definition clearImage :: "nat \<Rightarrow> 'f World \<Rightarrow> 'f World" where
  "clearImage a w = w\<lparr>trace := trace w @ [Release a]\<rparr>"

text \<open>
  Modelled from the spec: \<^verbatim>\<open>vipsSetPageHeight\<close> and \<^verbatim>\<open>vipsSetImageNPages\<close>, declared
  outside \<^verbatim>\<open>image.go\<close>, write one metadata attribute of the object they are given, in
  place.
\<close>

definition vipsSetPageHeight :: "nat \<Rightarrow> int \<Rightarrow> 'f World \<Rightarrow> 'f World" where
  "vipsSetPageHeight a h w =
     (if a < length (heap w)
      then w\<lparr>heap := (heap w)[a := (heap w ! a)\<lparr>page_height := h\<rparr>],
             trace := trace w @ [SetPageHeightAttr a h]\<rparr>
      else w)"

definition vipsSetImageNPages :: "nat \<Rightarrow> int \<Rightarrow> 'f World \<Rightarrow> 'f World" where
  "vipsSetImageNPages a n w =
     (if a < length (heap w)
      then w\<lparr>heap := (heap w)[a := (heap w ! a)\<lparr>n_pages := n\<rparr>],
             trace := trace w @ [SetNPagesAttr a n]\<rparr>
      else w)"

section \<open>The Handle\<close>

record PreMultiplicationState =
  bandFormat :: BandFormat

text \<open>
  \<^verbatim>\<open>ImageRef\<close>. The \<^verbatim>\<open>lock\<close> field is left out: the model runs one call at a time.
\<close>

record ImageRef =
  buf :: "bytes option"
  image' :: ptr
  format :: ImageType
  originalFormat :: ImageType
  preMultiplication :: "PreMultiplicationState option"
  optimizedIccProfile :: string

record ImageMetadata =
  mdFormat :: ImageType
  mdWidth :: int
  mdHeight :: int
  mdColorspace :: Interpretation
  mdOrientation :: int
  mdPages :: int

type_synonym 'f outcome = "error option \<times> ImageRef \<times> 'f World"

definition errOf :: "'f outcome \<Rightarrow> error option" where
  "errOf x = fst x"

definition refOf :: "'f outcome \<Rightarrow> ImageRef" where
  "refOf x = fst (snd x)"

definition worldOf :: "'f outcome \<Rightarrow> 'f World" where
  "worldOf x = snd (snd x)"

subsection \<open>Lifecycle\<close>

definition Close :: "ImageRef \<Rightarrow> 'f World \<Rightarrow> ImageRef \<times> 'f World" where
  "Close r w =
     (let (r1, w1) = (case image' r of
                        Some a \<Rightarrow> (r\<lparr>image' := None\<rparr>, clearImage a w)
                      | None \<Rightarrow> (r, w))
      in (r1\<lparr>buf := None\<rparr>, w1))"

definition setImage :: "ImageRef \<Rightarrow> ptr \<Rightarrow> 'f World \<Rightarrow> ImageRef \<times> 'f World" where
  "setImage r p w =
     (if image' r = p then (r, w)
      else (r\<lparr>image' := p\<rparr>,
            (case image' r of Some a \<Rightarrow> clearImage a w | None \<Rightarrow> w)))"

subsection \<open>Introspection\<close>

text \<open>
  A reader returns \<open>None\<close> where the Go method would dereference a nil native pointer.
\<close>

definition Width :: "ImageRef \<Rightarrow> 'f World \<Rightarrow> int option" where
  "Width r w = map_option Xsize (deref w (image' r))"


text \<open>
  Modelled from the spec: \<^verbatim>\<open>has_alpha_channel\<close> is a native query on the object.
\<close>

definition vipsHasAlpha :: "'f World \<Rightarrow> ptr \<Rightarrow> bool option" where
  "vipsHasAlpha w p = map_option has_alpha_channel (deref w p)"

definition HasAlpha :: "ImageRef \<Rightarrow> 'f World \<Rightarrow> bool option" where
  "HasAlpha r w = vipsHasAlpha w (image' r)"

definition BandFormat' :: "ImageRef \<Rightarrow> 'f World \<Rightarrow> BandFormat option" where
  "BandFormat' r w = map_option BandFmt (deref w (image' r))"

definition Interpretation' :: "ImageRef \<Rightarrow> 'f World \<Rightarrow> Interpretation option" where
  "Interpretation' r w = map_option Type (deref w (image' r))"

definition ColorSpace :: "ImageRef \<Rightarrow> 'f World \<Rightarrow> Interpretation option" where
  "ColorSpace r w = Interpretation' r w"

text \<open>
  Modelled from the spec: \<^verbatim>\<open>vipsGetImageNPages\<close> and \<^verbatim>\<open>vipsGetPageHeight\<close>, declared
  outside \<^verbatim>\<open>image.go\<close>, read the \<^verbatim>\<open>n-pages\<close> and \<^verbatim>\<open>page-height\<close> attributes of the
  object.
\<close>

definition vipsGetImageNPages :: "'f World \<Rightarrow> ptr \<Rightarrow> int option" where
  "vipsGetImageNPages w p = map_option n_pages (deref w p)"

definition vipsGetPageHeight :: "'f World \<Rightarrow> ptr \<Rightarrow> int option" where
  "vipsGetPageHeight w p = map_option page_height (deref w p)"

definition Pages :: "ImageRef \<Rightarrow> 'f World \<Rightarrow> int option" where
  "Pages r w = (if format r = ImageTypeJP2K then Some 1 else vipsGetImageNPages w (image' r))"

definition PageHeight :: "ImageRef \<Rightarrow> 'f World \<Rightarrow> int option" where
  "PageHeight r w = vipsGetPageHeight w (image' r)"

definition GetPageHeight :: "ImageRef \<Rightarrow> 'f World \<Rightarrow> int option" where
  "GetPageHeight r w = vipsGetPageHeight w (image' r)"

definition newMetadata :: "ImageRef \<Rightarrow> ImageType \<Rightarrow> 'f World \<Rightarrow> ImageMetadata option" where
  "newMetadata r fmt w = (case deref w (image' r) of
       None \<Rightarrow> None
     | Some img \<Rightarrow> (case Pages r w of
           None \<Rightarrow> None
         | Some n \<Rightarrow> Some \<lparr>mdFormat = fmt, mdWidth = Xsize img, mdHeight = Ysize img,
                           mdColorspace = Type img, mdOrientation = orientation img,
                           mdPages = n\<rparr>))"

subsection \<open>Mutation methods made of one primitive call\<close>

text \<open>
  \<^verbatim>\<open>if err != nil { return err }\<close> between two steps of a method.
\<close>

definition andThen ::
  "'f outcome \<Rightarrow> (ImageRef \<Rightarrow> 'f World \<Rightarrow> 'f outcome) \<Rightarrow> 'f outcome" where
  "andThen m k = (case m of (Some e, r, w) \<Rightarrow> (Some e, r, w) | (None, r, w) \<Rightarrow> k r w)"

text \<open>
  The body shared by the one-primitive methods:
  \<^verbatim>\<open>out, err := vipsX(r.image, ...); if err != nil { return err }; r.setImage(out); return nil\<close>.
\<close>

definition mutate :: "'f Env \<Rightarrow> 'f op \<Rightarrow> ImageRef \<Rightarrow> 'f World \<Rightarrow> 'f outcome" where
  "mutate E f r w = (case callPrim E f (image' r) w of
       (Inl e, w1) \<Rightarrow> (Some e, r, w1)
     | (Inr out, w1) \<Rightarrow> (let (r2, w2) = setImage r (Some out) w1 in (None, r2, w2)))"

definition ToColorSpace :: "'f Env \<Rightarrow> Interpretation \<Rightarrow> ImageRef \<Rightarrow> 'f World \<Rightarrow> 'f outcome" where
  "ToColorSpace E interpretation r w = mutate E (OpToColorSpace interpretation) r w"

definition Linear :: "'f Env \<Rightarrow> 'f list \<Rightarrow> 'f list \<Rightarrow> ImageRef \<Rightarrow> 'f World \<Rightarrow> 'f outcome" where
  "Linear E a b r w =
     (if length a \<noteq> length b then (Some LinearLengthMismatch, r, w)
      else mutate E (OpLinear a b (int (length a))) r w)"

definition Flip :: "'f Env \<Rightarrow> Direction \<Rightarrow> ImageRef \<Rightarrow> 'f World \<Rightarrow> 'f outcome" where
  "Flip E direction r w = mutate E (OpFlip direction) r w"

definition Grid :: "'f Env \<Rightarrow> int \<Rightarrow> int \<Rightarrow> int \<Rightarrow> ImageRef \<Rightarrow> 'f World \<Rightarrow> 'f outcome" where
  "Grid E tileHeight across down r w = mutate E (OpGrid tileHeight across down) r w"


definition SetPageHeight :: "'f Env \<Rightarrow> int \<Rightarrow> ImageRef \<Rightarrow> 'f World \<Rightarrow> 'f outcome" where
  "SetPageHeight E height r w = (case callPrim E OpCopyImage (image' r) w of
       (Inl e, w1) \<Rightarrow> (Some e, r, w1)
     | (Inr out, w1) \<Rightarrow>
         (let w2 = vipsSetPageHeight out height w1;
              (r3, w3) = setImage r (Some out) w2
          in (None, r3, w3)))"

text \<open>
  \<^verbatim>\<open>SetPages\<close> writes the attribute with \<^verbatim>\<open>vipsSetImageNPages(r.image, pages)\<close>: on the
  Handle's current object, not on the copy \<^verbatim>\<open>out\<close> that it installs afterwards.
\<close>

definition SetPages :: "'f Env \<Rightarrow> int \<Rightarrow> ImageRef \<Rightarrow> 'f World \<Rightarrow> 'f outcome" where
  "SetPages E pages r w = (case callPrim E OpCopyImage (image' r) w of
       (Inl e, w1) \<Rightarrow> (Some e, r, w1)
     | (Inr out, w1) \<Rightarrow>
         (let w2 = (case image' r of Some a \<Rightarrow> vipsSetImageNPages a pages w1 | None \<Rightarrow> w1);
              (r3, w3) = setImage r (Some out) w2
          in (None, r3, w3)))"

subsection \<open>The pre-multiplication tracker\<close>

definition PremultiplyAlpha :: "'f Env \<Rightarrow> ImageRef \<Rightarrow> 'f World \<Rightarrow> 'f outcome" where
  "PremultiplyAlpha E r w =
     (if preMultiplication r \<noteq> None then (None, r, w)
      else (case vipsHasAlpha w (image' r) of
          None \<Rightarrow> (Some NilDereference, r, w)
        | Some alpha \<Rightarrow>
            if \<not> alpha then (None, r, w)
            else (case BandFormat' r w of
                None \<Rightarrow> (Some NilDereference, r, w)
              | Some band \<Rightarrow> (case callPrim E OpPremultiplyAlpha (image' r) w of
                    (Inl e, w1) \<Rightarrow> (Some e, r, w1)
                  | (Inr out, w1) \<Rightarrow>
                      (let r1 = r\<lparr>preMultiplication := Some \<lparr>bandFormat = band\<rparr>\<rparr>;
                           (r2, w2) = setImage r1 (Some out) w1
                       in (None, r2, w2))))))"

text \<open>
  The deferred \<^verbatim>\<open>clearImage(unpremultiplied)\<close> runs when the method returns, after the
  cast and after \<^verbatim>\<open>setImage\<close>.
\<close>

definition UnpremultiplyAlpha :: "'f Env \<Rightarrow> ImageRef \<Rightarrow> 'f World \<Rightarrow> 'f outcome" where
  "UnpremultiplyAlpha E r w = (case preMultiplication r of
       None \<Rightarrow> (None, r, w)
     | Some st \<Rightarrow> (case callPrim E OpUnpremultiplyAlpha (image' r) w of
           (Inl e, w1) \<Rightarrow> (Some e, r, w1)
         | (Inr unpremultiplied, w1) \<Rightarrow>
             (case callPrim E (OpCast (bandFormat st)) (Some unpremultiplied) w1 of
                 (Inl e, w2) \<Rightarrow> (Some e, r, clearImage unpremultiplied w2)
               | (Inr out, w2) \<Rightarrow>
                   (let r1 = r\<lparr>preMultiplication := None\<rparr>;
                        (r2, w3) = setImage r1 (Some out) w2
                    in (None, r2, clearImage unpremultiplied w3)))))"

subsection \<open>Colour profile\<close>

text \<open>
  \<^verbatim>\<open>OptimizeICCProfile\<close> stores the chosen profile in the Handle before it calls the
  transform primitive.
\<close>

definition determineInputICCProfile :: "ImageRef \<Rightarrow> 'f World \<Rightarrow> string option" where
  "determineInputICCProfile r w = (case Interpretation' r w of
       None \<Rightarrow> None
     | Some i \<Rightarrow> Some (if i = InterpretationCMYK then ''cmyk'' else []))"

definition OptimizeICCProfile :: "'f Env \<Rightarrow> ImageRef \<Rightarrow> 'f World \<Rightarrow> 'f outcome" where
  "OptimizeICCProfile E r w = (case determineInputICCProfile r w of
       None \<Rightarrow> (Some NilDereference, r, w)
     | Some inputProfile \<Rightarrow> (case deref w (image' r) of
           None \<Rightarrow> (Some NilDereference, r, w)
         | Some img \<Rightarrow>
             if \<not> icc_profile img \<and> inputProfile = [] then (None, r, w)
             else
               (let r1 = r\<lparr>optimizedIccProfile := SRGBV2MicroICCProfilePath E\<rparr>;
                    r2 = (if Bands img \<le> 2
                          then r1\<lparr>optimizedIccProfile := SGrayV2MicroICCProfilePath E\<rparr>
                          else r1);
                    embedded = icc_profile img;
                    depth = (if BandFmt img = BandFormatUchar \<or> BandFmt img = BandFormatChar
                                \<or> BandFmt img = BandFormatNotSet
                             then 8 else 16)
                in mutate E (OpICCTransform (optimizedIccProfile r2) inputProfile
                               IntentPerceptual depth embedded) r2 w)))"

subsection \<open>Mutation methods made of several steps\<close>

definition Modulate :: "'f Env \<Rightarrow> 'f \<Rightarrow> 'f \<Rightarrow> 'f \<Rightarrow> ImageRef \<Rightarrow> 'f World \<Rightarrow> 'f outcome" where
  "Modulate E brightness saturation hue r w = (case ColorSpace r w of
       None \<Rightarrow> (Some NilDereference, r, w)
     | Some cs \<Rightarrow> (case HasAlpha r w of
           None \<Rightarrow> (Some NilDereference, r, w)
         | Some alpha \<Rightarrow>
             (let colorspace = (if cs = InterpretationRGB then InterpretationSRGB else cs);
                  multiplications = [brightness, saturation, f64_of_int E 1]
                                    @ (if alpha then [f64_of_int E 1] else []);
                  additions = [f64_of_int E 0, f64_of_int E 0, hue]
                              @ (if alpha then [f64_of_int E 0] else [])
              in andThen (ToColorSpace E InterpretationLCH r w) (\<lambda>r1 w1.
                 andThen (Linear E multiplications additions r1 w1) (\<lambda>r2 w2.
                 ToColorSpace E colorspace r2 w2)))))"


text \<open>
  \<^verbatim>\<open>ResizeWithVScale\<close>: \<^verbatim>\<open>pages\<close> and \<^verbatim>\<open>pageHeight\<close> are read after the pre-multiplication
  step; the new page height is \<^verbatim>\<open>int(float64(pageHeight) * scale)\<close>.
\<close>

definition ResizeWithVScale ::
  "'f Env \<Rightarrow> 'f \<Rightarrow> 'f \<Rightarrow> Kernel \<Rightarrow> ImageRef \<Rightarrow> 'f World \<Rightarrow> 'f outcome" where
  "ResizeWithVScale E hScale vScale kernel' r w =
     andThen (PremultiplyAlpha E r w) (\<lambda>r1 w1.
       case Pages r1 w1 of
         None \<Rightarrow> (Some NilDereference, r1, w1)
       | Some pages \<Rightarrow> (case GetPageHeight r1 w1 of
             None \<Rightarrow> (Some NilDereference, r1, w1)
           | Some pageHeight \<Rightarrow>
               andThen (mutate E (OpResizeWithVScale hScale vScale kernel') r1 w1) (\<lambda>r2 w2.
               andThen
                 (if pages > 1
                  then (let scale = (if vScale \<noteq> f64_of_int E (- 1) then vScale else hScale);
                            newPageHeight = f64_to_int E (f64_mul E (f64_of_int E pageHeight) scale)
                        in SetPageHeight E newPageHeight r2 w2)
                  else (None, r2, w2))
                 (\<lambda>r3 w3. UnpremultiplyAlpha E r3 w3))))"


text \<open>
  \<^verbatim>\<open>Rotate\<close>: the width is read first; the arguments of \<^verbatim>\<open>Grid\<close> are read from the
  image as it is after the first flip; the second test of \<^verbatim>\<open>r.Pages() > 1\<close> reads the
  rotated image.
\<close>

definition Rotate :: "'f Env \<Rightarrow> Angle \<Rightarrow> ImageRef \<Rightarrow> 'f World \<Rightarrow> 'f outcome" where
  "Rotate E angle r w = (case Width r w of
       None \<Rightarrow> (Some NilDereference, r, w)
     | Some width \<Rightarrow> (case Pages r w of
           None \<Rightarrow> (Some NilDereference, r, w)
         | Some pages0 \<Rightarrow>
             andThen
               (if pages0 > 1 \<and> (angle = Angle90 \<or> angle = Angle270)
                then
                  andThen (if angle = Angle270 then Flip E DirectionHorizontal r w
                           else (None, r, w)) (\<lambda>r1 w1.
                  andThen (case GetPageHeight r1 w1 of
                             None \<Rightarrow> (Some NilDereference, r1, w1)
                           | Some ph \<Rightarrow> (case Pages r1 w1 of
                                 None \<Rightarrow> (Some NilDereference, r1, w1)
                               | Some n \<Rightarrow> Grid E ph n 1 r1 w1)) (\<lambda>r2 w2.
                  if angle = Angle270 then Flip E DirectionHorizontal r2 w2
                  else (None, r2, w2)))
                else (None, r, w))
               (\<lambda>r3 w3.
                  andThen (mutate E (OpRotate angle) r3 w3) (\<lambda>r4 w4.
                    case Pages r4 w4 of
                      None \<Rightarrow> (Some NilDereference, r4, w4)
                    | Some pages1 \<Rightarrow>
                        if pages1 > 1 \<and> (angle = Angle90 \<or> angle = Angle270)
                        then SetPageHeight E width r4 w4
                        else (None, r4, w4)))))"

section \<open>Export\<close>

subsection \<open>Default parameter sets\<close>

definition NewJpegExportParams :: JpegExportParams where
  "NewJpegExportParams =
     \<lparr>jpegStripMetadata = False, jpegQuality = 80, jpegInterlace = True,
      jpegOptimizeCoding = False, jpegSubsampleMode = 0, jpegTrellisQuant = False,
      jpegOvershootDeringing = False, jpegOptimizeScans = False, jpegQuantTable = 0\<rparr>"

definition NewPngExportParams :: "'f Env \<Rightarrow> 'f PngExportParams" where
  "NewPngExportParams E =
     \<lparr>pngStripMetadata = False, pngCompression = 6, pngFilter = PngFilterNone E,
      pngInterlace = False, pngQuality = 0, pngPalette = False,
      pngDither = f64_of_int E 0, pngBitdepth = 0, pngProfile = []\<rparr>"

definition NewWebpExportParams :: WebpExportParams where
  "NewWebpExportParams =
     \<lparr>webpStripMetadata = False, webpQuality = 75, webpLossless = False,
      webpNearLossless = False, webpReductionEffort = 4, webpIccProfile = []\<rparr>"

definition NewHeifExportParams :: HeifExportParams where
  "NewHeifExportParams = \<lparr>heifQuality = 80, heifLossless = False\<rparr>"

definition NewTiffExportParams :: "'f Env \<Rightarrow> TiffExportParams" where
  "NewTiffExportParams E =
     \<lparr>tiffStripMetadata = False, tiffQuality = 80, tiffCompression = TiffCompressionLzw E,
      tiffPredictor = TiffPredictorHorizontal E\<rparr>"

definition NewGifExportParams :: "'f Env \<Rightarrow> 'f GifExportParams" where
  "NewGifExportParams E =
     \<lparr>gifStripMetadata = False, gifQuality = 75, gifDither = f64_of_int E 0,
      gifEffort = 7, gifBitdepth = 8\<rparr>"

definition NewAvifExportParams :: AvifExportParams where
  "NewAvifExportParams =
     \<lparr>avifStripMetadata = False, avifQuality = 80, avifLossless = False, avifSpeed = 5\<rparr>"

definition NewJp2kExportParams :: Jp2kExportParams where
  "NewJp2kExportParams =
     \<lparr>jp2kQuality = 80, jp2kLossless = False, jp2kTileWidth = 512, jp2kTileHeight = 512,
      jp2kSubsampleMode = 0\<rparr>"

subsection \<open>Per-codec export methods\<close>

text \<open>
  An export returns \<^verbatim>\<open>([]byte, *ImageMetadata, error)\<close>; the Handle and the native world
  are returned with it, as for the mutation methods.
\<close>

type_synonym 'f exported =
  "(bytes option \<times> ImageMetadata option \<times> error option) \<times> ImageRef \<times> 'f World"

text \<open>
  The body shared by the per-codec methods once the parameter set is fixed: encode,
  return the error if there is one, else the buffer and \<^verbatim>\<open>r.newMetadata(format)\<close>.
\<close>

definition exportWith ::
  "'f Env \<Rightarrow> 'f saveReq \<Rightarrow> ImageType \<Rightarrow> ImageRef \<Rightarrow> 'f World \<Rightarrow> 'f exported" where
  "exportWith E q fmt r w = (case callEncode E q (image' r) w of
       (Inl e, w1) \<Rightarrow> ((None, None, Some e), r, w1)
     | (Inr b, w1) \<Rightarrow> (case newMetadata r fmt w1 of
           None \<Rightarrow> ((None, None, Some NilDereference), r, w1)
         | Some md \<Rightarrow> ((Some b, Some md, None), r, w1)))"

definition ExportJpeg ::
  "'f Env \<Rightarrow> JpegExportParams option \<Rightarrow> ImageRef \<Rightarrow> 'f World \<Rightarrow> 'f exported" where
  "ExportJpeg E params r w =
     exportWith E (SaveJPEG (case params of None \<Rightarrow> NewJpegExportParams | Some p \<Rightarrow> p))
       ImageTypeJPEG r w"

definition ExportPng ::
  "'f Env \<Rightarrow> 'f PngExportParams option \<Rightarrow> ImageRef \<Rightarrow> 'f World \<Rightarrow> 'f exported" where
  "ExportPng E params r w =
     exportWith E (SavePNG (case params of None \<Rightarrow> NewPngExportParams E | Some p \<Rightarrow> p))
       ImageTypePNG r w"

text \<open>
  \<^verbatim>\<open>ExportWebp\<close> copies the caller's struct (\<^verbatim>\<open>paramsWithIccProfile := *params\<close>) and
  writes the profile into the copy. The second component of the result is the caller's
  struct as it is when the method returns.
\<close>

definition ExportWebp ::
  "'f Env \<Rightarrow> WebpExportParams option \<Rightarrow> ImageRef \<Rightarrow> 'f World
     \<Rightarrow> 'f exported \<times> WebpExportParams option" where
  "ExportWebp E params r w =
     (let p = (case params of None \<Rightarrow> NewWebpExportParams | Some p \<Rightarrow> p);
          paramsWithIccProfile = p\<lparr>webpIccProfile := optimizedIccProfile r\<rparr>
      in (exportWith E (SaveWebP paramsWithIccProfile) ImageTypeWEBP r w, params))"

definition ExportHeif ::
  "'f Env \<Rightarrow> HeifExportParams option \<Rightarrow> ImageRef \<Rightarrow> 'f World \<Rightarrow> 'f exported" where
  "ExportHeif E params r w =
     exportWith E (SaveHEIF (case params of None \<Rightarrow> NewHeifExportParams | Some p \<Rightarrow> p))
       ImageTypeHEIF r w"

definition ExportTiff ::
  "'f Env \<Rightarrow> TiffExportParams option \<Rightarrow> ImageRef \<Rightarrow> 'f World \<Rightarrow> 'f exported" where
  "ExportTiff E params r w =
     exportWith E (SaveTIFF (case params of None \<Rightarrow> NewTiffExportParams E | Some p \<Rightarrow> p))
       ImageTypeTIFF r w"

definition ExportGIF ::
  "'f Env \<Rightarrow> 'f GifExportParams option \<Rightarrow> ImageRef \<Rightarrow> 'f World \<Rightarrow> 'f exported" where
  "ExportGIF E params r w =
     exportWith E (SaveGIF (case params of None \<Rightarrow> NewGifExportParams E | Some p \<Rightarrow> p))
       ImageTypeGIF r w"

definition ExportAvif ::
  "'f Env \<Rightarrow> AvifExportParams option \<Rightarrow> ImageRef \<Rightarrow> 'f World \<Rightarrow> 'f exported" where
  "ExportAvif E params r w =
     exportWith E (SaveAVIF (case params of None \<Rightarrow> NewAvifExportParams | Some p \<Rightarrow> p))
       ImageTypeAVIF r w"

definition ExportJp2k ::
  "'f Env \<Rightarrow> Jp2kExportParams option \<Rightarrow> ImageRef \<Rightarrow> 'f World \<Rightarrow> 'f exported" where
  "ExportJp2k E params r w =
     exportWith E (SaveJP2K (case params of None \<Rightarrow> NewJp2kExportParams | Some p \<Rightarrow> p))
       ImageTypeJP2K r w"

subsection \<open>Dispatch\<close>

definition ExportNative :: "'f Env \<Rightarrow> ImageRef \<Rightarrow> 'f World \<Rightarrow> 'f exported" where
  "ExportNative E r w = (case format r of
       ImageTypeJPEG \<Rightarrow> ExportJpeg E (Some NewJpegExportParams) r w
     | ImageTypePNG \<Rightarrow> ExportPng E (Some (NewPngExportParams E)) r w
     | ImageTypeWEBP \<Rightarrow> fst (ExportWebp E (Some NewWebpExportParams) r w)
     | ImageTypeHEIF \<Rightarrow> ExportHeif E (Some NewHeifExportParams) r w
     | ImageTypeTIFF \<Rightarrow> ExportTiff E (Some (NewTiffExportParams E)) r w
     | ImageTypeAVIF \<Rightarrow> ExportAvif E (Some NewAvifExportParams) r w
     | ImageTypeJP2K \<Rightarrow> ExportJp2k E (Some NewJp2kExportParams) r w
     | ImageTypeGIF \<Rightarrow> ExportGIF E (Some (NewGifExportParams E)) r w
     | _ \<Rightarrow> ExportJpeg E (Some NewJpegExportParams) r w)"

text \<open>
  \<^verbatim>\<open>Export\<close>. Fields that a struct literal does not mention hold Go's zero value.
\<close>

definition Export ::
  "'f Env \<Rightarrow> ExportParams option \<Rightarrow> ImageRef \<Rightarrow> 'f World \<Rightarrow> 'f exported" where
  "Export E params r w = (case params of
       None \<Rightarrow> ExportNative E r w
     | Some p \<Rightarrow>
         if Format p = ImageTypeUnknown then ExportNative E r w
         else if \<not> IsTypeSupported E (Format p) then
           (case newMetadata r ImageTypeUnknown w of
              None \<Rightarrow> ((None, None, Some NilDereference), r, w)
            | Some md \<Rightarrow> ((None, Some md, Some (CannotSave (Format p))), r, w))
         else (case Format p of
             ImageTypeGIF \<Rightarrow>
               ExportGIF E (Some \<lparr>gifStripMetadata = False, gifQuality = Quality p,
                  gifDither = f64_of_int E 0, gifEffort = 0, gifBitdepth = 0\<rparr>) r w
           | ImageTypeWEBP \<Rightarrow>
               fst (ExportWebp E (Some \<lparr>webpStripMetadata = StripMetadata p,
                  webpQuality = Quality p, webpLossless = Lossless p,
                  webpNearLossless = False, webpReductionEffort = Effort p,
                  webpIccProfile = []\<rparr>) r w)
           | ImageTypePNG \<Rightarrow>
               ExportPng E (Some \<lparr>pngStripMetadata = StripMetadata p,
                  pngCompression = Compression p, pngFilter = 0,
                  pngInterlace = Interlaced p, pngQuality = 0, pngPalette = False,
                  pngDither = f64_of_int E 0, pngBitdepth = 0, pngProfile = []\<rparr>) r w
           | ImageTypeTIFF \<Rightarrow>
               (let compression = (if Lossless p then TiffCompressionNone E
                                   else TiffCompressionLzw E)
                in ExportTiff E (Some \<lparr>tiffStripMetadata = StripMetadata p,
                     tiffQuality = Quality p, tiffCompression = compression,
                     tiffPredictor = 0\<rparr>) r w)
           | ImageTypeHEIF \<Rightarrow>
               ExportHeif E (Some \<lparr>heifQuality = Quality p, heifLossless = Lossless p\<rparr>) r w
           | ImageTypeAVIF \<Rightarrow>
               ExportAvif E (Some \<lparr>avifStripMetadata = StripMetadata p,
                  avifQuality = Quality p, avifLossless = Lossless p,
                  avifSpeed = Speed p\<rparr>) r w
           | _ \<Rightarrow>
               ExportJpeg E (Some \<lparr>jpegStripMetadata = StripMetadata p,
                  jpegQuality = Quality p, jpegInterlace = Interlaced p,
                  jpegOptimizeCoding = OptimizeCoding p,
                  jpegSubsampleMode = SubsampleMode p, jpegTrellisQuant = TrellisQuant p,
                  jpegOvershootDeringing = OvershootDeringing p,
                  jpegOptimizeScans = OptimizeScans p,
                  jpegQuantTable = QuantTable p\<rparr>) r w))"

section \<open>Vocabulary of the properties\<close>

subsection \<open>Calls by name\<close>




subsection \<open>Observations\<close>

text \<open>The events that a call added to the native trace.\<close>

definition newEvents :: "'f World \<Rightarrow> 'f World \<Rightarrow> 'f event list" where
  "newEvents w w' = drop (length (trace w)) (trace w')"


text \<open>The codec that an encode request addresses.\<close>

fun codecOf :: "'f saveReq \<Rightarrow> ImageType" where
  "codecOf (SaveJPEG p) = ImageTypeJPEG"
| "codecOf (SavePNG p) = ImageTypePNG"
| "codecOf (SaveWebP p) = ImageTypeWEBP"
| "codecOf (SaveHEIF p) = ImageTypeHEIF"
| "codecOf (SaveTIFF p) = ImageTypeTIFF"
| "codecOf (SaveGIF p) = ImageTypeGIF"
| "codecOf (SaveAVIF p) = ImageTypeAVIF"
| "codecOf (SaveJP2K p) = ImageTypeJP2K"

text \<open>The formats for which \<^verbatim>\<open>ExportNative\<close> has a case of its own.\<close>

fun encodable :: "ImageType \<Rightarrow> bool" where
  "encodable ImageTypeJPEG = True"
| "encodable ImageTypePNG = True"
| "encodable ImageTypeWEBP = True"
| "encodable ImageTypeHEIF = True"
| "encodable ImageTypeTIFF = True"
| "encodable ImageTypeAVIF = True"
| "encodable ImageTypeJP2K = True"
| "encodable ImageTypeGIF = True"
| "encodable _ = False"

subsection \<open>Contracts of the primitives\<close>

text \<open>
  What the properties below ask of the external primitives: a cast delivers the band
  format it is asked for; a primitive carries the page metadata of its input over to
  its output.
\<close>

definition castDelivers :: "'f Env \<Rightarrow> bool" where
  "castDelivers E \<longleftrightarrow> (\<forall>fmt img out. prim E (OpCast fmt) img = Inr out \<longrightarrow> BandFmt out = fmt)"

definition keepsPages :: "'f Env \<Rightarrow> 'f op \<Rightarrow> bool" where
  "keepsPages E f \<longleftrightarrow>
     (\<forall>img out. prim E f img = Inr out \<longrightarrow>
        n_pages out = n_pages img \<and> page_height out = page_height img)"

definition keepsNPages :: "'f Env \<Rightarrow> bool" where
  "keepsNPages E \<longleftrightarrow> (\<forall>f img out. prim E f img = Inr out \<longrightarrow> n_pages out = n_pages img)"

text \<open>
  The three primitives behind the pre-multiplication bracket carry the page metadata
  over.
\<close>

definition bracketKeepsPages :: "'f Env \<Rightarrow> bool" where
  "bracketKeepsPages E \<longleftrightarrow>
     keepsPages E OpPremultiplyAlpha \<and> keepsPages E OpUnpremultiplyAlpha
     \<and> (\<forall>fmt. keepsPages E (OpCast fmt))"

text \<open>An event that writes the page-height attribute.\<close>

fun writesPageHeight :: "'f event \<Rightarrow> bool" where
  "writesPageHeight (SetPageHeightAttr a h) = True"
| "writesPageHeight _ = False"



text \<open>
  \<^verbatim>\<open>PremultiplyAlpha\<close> followed immediately by \<^verbatim>\<open>UnpremultiplyAlpha\<close>; the result carries
  no error only if both calls returned nil.
\<close>

definition premultiplyPair :: "'f Env \<Rightarrow> ImageRef \<Rightarrow> 'f World \<Rightarrow> 'f outcome" where
  "premultiplyPair E r w =
     andThen (PremultiplyAlpha E r w) (\<lambda>r1 w1. UnpremultiplyAlpha E r1 w1)"

section \<open>A reference environment and sample Handles\<close>

text \<open>
  An environment for the worked examples: \<^verbatim>\<open>float64\<close> values are rationals with exact
  arithmetic, and every primitive succeeds with the header changes that the native
  library documents for it (pre-multiplication promotes the band format to float,
  number 6 of the native enumeration).
\<close>

definition truncate :: "rat \<Rightarrow> int" where
  "truncate q = (if 0 \<le> q then \<lfloor>q\<rfloor> else \<lceil>q\<rceil>)"

fun demoPrim :: "rat op \<Rightarrow> VipsImage \<Rightarrow> error + VipsImage" where
  "demoPrim OpCopyImage img = Inr img"
| "demoPrim (OpToColorSpace i) img = Inr (img\<lparr>Type := i\<rparr>)"
| "demoPrim (OpLinear a b n) img = Inr img"
| "demoPrim (OpFlip d) img = Inr img"
| "demoPrim (OpGrid tileHeight across down) img =
     Inr (img\<lparr>Xsize := Xsize img * across, Ysize := tileHeight * down\<rparr>)"
| "demoPrim (OpRotate a) img =
     Inr (if a = Angle90 \<or> a = Angle270 then img\<lparr>Xsize := Ysize img, Ysize := Xsize img\<rparr>
          else img)"
| "demoPrim OpPremultiplyAlpha img = Inr (img\<lparr>BandFmt := BandFormatOther 6\<rparr>)"
| "demoPrim OpUnpremultiplyAlpha img = Inr img"
| "demoPrim (OpCast fmt) img = Inr (img\<lparr>BandFmt := fmt\<rparr>)"
| "demoPrim (OpResizeWithVScale h v k) img =
     Inr (img\<lparr>Xsize := truncate (of_int (Xsize img) * h),
              Ysize := truncate (of_int (Ysize img) * (if v = - 1 then h else v))\<rparr>)"
| "demoPrim (OpICCTransform outp inp intent depth embedded) img =
     Inr (img\<lparr>icc_profile := True\<rparr>)"

definition demoEnv :: "rat Env" where
  "demoEnv =
     \<lparr>prim = demoPrim,
      encode = (\<lambda>q img. Inr [nat (Xsize img), nat (Ysize img)]),
      IsTypeSupported = (\<lambda>t. t = ImageTypeJPEG \<or> t = ImageTypePNG \<or> t = ImageTypeGIF
                              \<or> t = ImageTypeWEBP \<or> t = ImageTypeTIFF),
      f64_of_int = of_int,
      f64_mul = (\<lambda>a b. a * b),
      f64_to_int = truncate,
      SRGBV2MicroICCProfilePath = ''srgb_v2_micro.icc'',
      SGrayV2MicroICCProfilePath = ''sgray_v2_micro.icc'',
      PngFilterNone = 8,
      TiffCompressionLzw = 5,
      TiffCompressionNone = 0,
      TiffPredictorHorizontal = 2\<rparr>"



text \<open>
  An animated image of three frames of 100 by 80 with an alpha channel, loaded as GIF,
  and a single-page opaque 100 by 100 photograph loaded as JPEG.
\<close>

definition animation :: VipsImage where
  "animation =
     \<lparr>Xsize = 100, Ysize = 240, Bands = 4, BandFmt = BandFormatUchar,
      Type = InterpretationSRGB, has_alpha_channel = True, n_pages = 3, page_height = 80,
      orientation = 1, icc_profile = False\<rparr>"

definition photo :: VipsImage where
  "photo =
     \<lparr>Xsize = 100, Ysize = 100, Bands = 3, BandFmt = BandFormatUchar,
      Type = InterpretationSRGB, has_alpha_channel = False, n_pages = 1, page_height = 100,
      orientation = 1, icc_profile = True\<rparr>"

definition world0 :: "rat World" where
  "world0 = \<lparr>heap = [animation, photo], trace = []\<rparr>"

definition animHandle :: ImageRef where
  "animHandle =
     \<lparr>buf = Some [71, 73, 70], image' = Some 0, format = ImageTypeGIF,
      originalFormat = ImageTypeGIF, preMultiplication = None, optimizedIccProfile = []\<rparr>"

definition photoHandle :: ImageRef where
  "photoHandle =
     \<lparr>buf = Some [255, 216], image' = Some 1, format = ImageTypeJPEG,
      originalFormat = ImageTypeJPEG, preMultiplication = None, optimizedIccProfile = []\<rparr>"

text \<open>
  The photograph again, held by a Handle whose recorded format has no encoder (number 6
  stands for a vector format), and a caller's WEBP parameter set that names a profile of
  its own.
\<close>

definition vectorHandle :: ImageRef where
  "vectorHandle =
     \<lparr>buf = Some [60, 115], image' = Some 1, format = ImageTypeOther 6,
      originalFormat = ImageTypeOther 6, preMultiplication = None,
      optimizedIccProfile = []\<rparr>"

definition callerWebp :: WebpExportParams where
  "callerWebp =
     \<lparr>webpStripMetadata = True, webpQuality = 60, webpLossless = False,
      webpNearLossless = False, webpReductionEffort = 2, webpIccProfile = ''caller.icc''\<rparr>"

text \<open>The animation Handle after a first, successful \<^verbatim>\<open>PremultiplyAlpha\<close>.\<close>

definition premultiplied :: "rat outcome" where
  "premultiplied = PremultiplyAlpha demoEnv animHandle world0"


section \<open>Basic facts about the native calls\<close>


lemma callPrim_ok:
  "callPrim E f p w = (Inr a, w1) \<Longrightarrow>
     \<exists>b out. p = Some b \<and> b < length (heap w) \<and> prim E f (heap w ! b) = Inr out
        \<and> a = length (heap w) \<and> heap w1 = heap w @ [out] \<and> trace w1 = trace w @ [Invoke f]"
  by (auto simp: callPrim_def deref_def split: option.splits sum.splits if_splits)


lemma mutate_ok:
  "mutate E f r w = (None, r', w') \<Longrightarrow>
     \<exists>a out. image' r = Some a \<and> a < length (heap w) \<and> prim E f (heap w ! a) = Inr out
        \<and> r' = r\<lparr>image' := Some (length (heap w))\<rparr>
        \<and> heap w' = heap w @ [out] \<and> trace w' = trace w @ [Invoke f, Release a]"
  by (auto simp: mutate_def setImage_def clearImage_def split: prod.splits sum.splits if_splits
      dest!: callPrim_ok)

section \<open>Lifecycle properties\<close>

text \<open>
  Claim C8. Calling \<^verbatim>\<open>Close\<close> twice in a row is safe. The first call leaves the native
  reference nil and the retained buffer dropped, and the only thing it asks of the native
  layer is the release of the object the Handle held (nothing, if it held none). A
  second call, and any number of later calls, return the Handle and the native world
  exactly as the first call left them: no further release is recorded.
\<close>

theorem Close_idempotent:
  "Close (fst (Close r w)) (snd (Close r w)) = Close r w
   \<and> ((\<lambda>(r', w'). Close r' w') ^^ n) (Close r w) = Close r w
   \<and> image' (fst (Close r w)) = None \<and> buf (fst (Close r w)) = None
   \<and> heap (snd (Close r w)) = heap w
   \<and> trace (snd (Close r w))
       = trace w @ (case image' r of Some a \<Rightarrow> [Release a] | None \<Rightarrow> [])"
proof -
  have once: "Close (fst (Close r w)) (snd (Close r w)) = Close r w"
    by (simp add: Close_def clearImage_def split: option.splits)
  have later: "((\<lambda>(r', w'). Close r' w') ^^ n) (Close r w) = Close r w"
  proof (induction n)
    case 0
    show ?case by simp
  next
    case (Suc n)
    then show ?case using once by (simp add: case_prod_beta)
  qed
  have first: "image' (fst (Close r w)) = None \<and> buf (fst (Close r w)) = None
     \<and> heap (snd (Close r w)) = heap w
     \<and> trace (snd (Close r w))
         = trace w @ (case image' r of Some a \<Rightarrow> [Release a] | None \<Rightarrow> [])"
    by (simp add: Close_def clearImage_def split: option.splits)
  from once later first show ?thesis by blast
qed

theorem Close_idempotent_witness:
  "trace (snd (Close animHandle world0)) = [Release 0]
   \<and> Close (fst (Close animHandle world0)) (snd (Close animHandle world0))
       = Close animHandle world0
   \<and> trace (snd (Close (fst (Close animHandle world0)) (snd (Close animHandle world0))))
       = [Release 0]"
  using Close_idempotent [of animHandle world0 1]
  by (simp add: animHandle_def world0_def)

text \<open>
  Claim C9. \<^verbatim>\<open>setImage\<close> compares the incoming native reference with the current one.
  Installing the reference that the Handle already holds changes nothing and records no
  release. Installing a different reference stores it, leaves every other field alone,
  and records exactly the release of the old reference (when the Handle held one).
\<close>

theorem setImage_identity:
  "(image' r = p \<longrightarrow> setImage r p w = (r, w))
   \<and> (image' r \<noteq> p \<longrightarrow>
        fst (setImage r p w) = r\<lparr>image' := p\<rparr>
        \<and> heap (snd (setImage r p w)) = heap w
        \<and> trace (snd (setImage r p w))
            = trace w @ (case image' r of Some a \<Rightarrow> [Release a] | None \<Rightarrow> []))"
  by (simp add: setImage_def clearImage_def split: option.splits)

theorem setImage_identity_witness:
  "setImage animHandle (Some 0) world0 = (animHandle, world0)
   \<and> image' (fst (setImage animHandle (Some 1) world0)) = Some 1
   \<and> trace (snd (setImage animHandle (Some 1) world0)) = [Release 0]"
  using setImage_identity [of animHandle "Some 0" world0]
        setImage_identity [of animHandle "Some 1" world0]
  by (simp add: animHandle_def world0_def)

section \<open>Page count\<close>

text \<open>
  Claim C10 asks that, on a Handle whose format is not JP2K, a successful
  \<^verbatim>\<open>SetPages(n)\<close> is read back by \<^verbatim>\<open>Pages()\<close>. The code writes the attribute on the
  object that it then releases, and installs the copy taken before the write. On the
  three-frame GIF Handle, under the reference environment (whose copy primitive returns
  its input unchanged), \<^verbatim>\<open>SetPages(5)\<close> succeeds and \<^verbatim>\<open>Pages()\<close> still answers 3.
\<close>

theorem SetPages_not_read_back:
  "format animHandle \<noteq> ImageTypeJP2K
   \<and> errOf (SetPages demoEnv 5 animHandle world0) = None
   \<and> Pages (refOf (SetPages demoEnv 5 animHandle world0))
            (worldOf (SetPages demoEnv 5 animHandle world0)) = Some 3"
  by (simp add: errOf_def refOf_def worldOf_def SetPages_def callPrim_def deref_def setImage_def
      clearImage_def vipsSetImageNPages_def Pages_def vipsGetImageNPages_def
      demoEnv_def animHandle_def world0_def animation_def)

section \<open>Export dispatch\<close>

text \<open>
  Claim C7. When the caller names an export format other than \<^verbatim>\<open>ImageTypeUnknown\<close> that
  \<^verbatim>\<open>IsTypeSupported\<close> rejects, \<^verbatim>\<open>Export\<close> returns no buffer and an error, and it returns
  the Handle and the native world untouched: the trace is the same, so no encoder and no
  other primitive was invoked. On a live Handle the error is the "cannot save" parameter
  error for the requested format.
\<close>

theorem Export_unsupported_format:
  "Format p \<noteq> ImageTypeUnknown \<and> \<not> IsTypeSupported E (Format p) \<longrightarrow>
     snd (Export E (Some p) r w) = (r, w)
     \<and> fst (fst (Export E (Some p) r w)) = None
     \<and> snd (snd (fst (Export E (Some p) r w))) \<noteq> None
     \<and> (deref w (image' r) \<noteq> None \<longrightarrow>
          snd (snd (fst (Export E (Some p) r w))) = Some (CannotSave (Format p)))"
  by (auto simp: Export_def newMetadata_def Pages_def vipsGetImageNPages_def
      split: option.splits)

theorem Export_unsupported_format_witness:
  "Export demoEnv (Some \<lparr>Format = ImageTypeHEIF, Quality = 80, Compression = 6,
       Interlaced = True, Lossless = False, Effort = 4, StripMetadata = False,
       OptimizeCoding = False, SubsampleMode = 0, TrellisQuant = False,
       OvershootDeringing = False, OptimizeScans = False, QuantTable = 0, Speed = 0\<rparr>)
     photoHandle world0
   = ((None, Some \<lparr>mdFormat = ImageTypeUnknown, mdWidth = 100, mdHeight = 100,
         mdColorspace = InterpretationSRGB, mdOrientation = 1, mdPages = 1\<rparr>,
       Some (CannotSave ImageTypeHEIF)), photoHandle, world0)"
  using Export_unsupported_format [of "\<lparr>Format = ImageTypeHEIF, Quality = 80,
       Compression = 6, Interlaced = True, Lossless = False, Effort = 4,
       StripMetadata = False, OptimizeCoding = False, SubsampleMode = 0,
       TrellisQuant = False, OvershootDeringing = False, OptimizeScans = False,
       QuantTable = 0, Speed = 0\<rparr>" demoEnv photoHandle world0]
  by (simp add: Export_def newMetadata_def Pages_def vipsGetImageNPages_def deref_def
      demoEnv_def photoHandle_def world0_def photo_def)

section \<open>Facts about export\<close>

lemma exportWith_trace:
  "deref w (image' r) \<noteq> None \<Longrightarrow>
     fst (snd (exportWith E q fmt r w)) = r
     \<and> heap (snd (snd (exportWith E q fmt r w))) = heap w
     \<and> trace (snd (snd (exportWith E q fmt r w))) = trace w @ [Encode q]"
  by (auto simp: exportWith_def callEncode_def split: option.splits sum.splits)

lemma exportWith_ref: "fst (snd (exportWith E q fmt r w)) = r"
  by (auto simp: exportWith_def callEncode_def split: option.splits sum.splits prod.splits)

lemma mutate_profile:
  "optimizedIccProfile (fst (snd (mutate E f r w))) = optimizedIccProfile r"
  by (simp add: mutate_def setImage_def split: prod.splits sum.splits)

lemma OptimizeICCProfile_profile:
  "deref w (image' r) = Some img \<Longrightarrow>
     optimizedIccProfile (refOf (OptimizeICCProfile E r w))
       = (if \<not> icc_profile img \<and> Type img \<noteq> InterpretationCMYK then optimizedIccProfile r
          else if Bands img \<le> 2 then SGrayV2MicroICCProfilePath E
          else SRGBV2MicroICCProfilePath E)"
  by (simp add: OptimizeICCProfile_def determineInputICCProfile_def Interpretation'_def
      refOf_def Let_def mutate_profile)

lemma opt_photo:
  "OptimizeICCProfile demoEnv photoHandle world0 =
     (None, photoHandle\<lparr>image' := Some 2, optimizedIccProfile := ''srgb_v2_micro.icc''\<rparr>,
      \<lparr>heap = [animation, photo, photo],
       trace = [Invoke (OpICCTransform ''srgb_v2_micro.icc'' [] IntentPerceptual 8 True),
                Release 1]\<rparr>)"
  by (simp add: OptimizeICCProfile_def determineInputICCProfile_def Interpretation'_def
        Let_def mutate_def setImage_def callPrim_def deref_def clearImage_def
        demoEnv_def photoHandle_def world0_def photo_def)

text \<open>
  Claim C5. \<^verbatim>\<open>ExportWebp\<close> hands the WEBP encoder the caller's parameter set (the default
  set when the caller passes nil) with its profile field replaced by the Handle's
  \<^verbatim>\<open>optimizedIccProfile\<close>, whatever the caller had put there; the caller's struct is the
  same after the call, and so is the Handle. The Handle's field is the one that
  \<^verbatim>\<open>OptimizeICCProfile\<close> writes: the grey profile for images of at most two bands, the
  sRGB profile otherwise, and the previous value when the image has no embedded profile
  and is not CMYK (nothing is computed then).
\<close>

theorem ExportWebp_attaches_profile:
  "snd (ExportWebp E params r w) = params
   \<and> fst (snd (fst (ExportWebp E params r w))) = r
   \<and> (deref w (image' r) \<noteq> None \<longrightarrow>
        trace (snd (snd (fst (ExportWebp E params r w))))
          = trace w @ [Encode (SaveWebP
              ((case params of None \<Rightarrow> NewWebpExportParams | Some p \<Rightarrow> p)
                 \<lparr>webpIccProfile := optimizedIccProfile r\<rparr>))])
   \<and> (\<forall>img. deref w (image' r) = Some img \<longrightarrow>
        optimizedIccProfile (refOf (OptimizeICCProfile E r w))
          = (if \<not> icc_profile img \<and> Type img \<noteq> InterpretationCMYK then optimizedIccProfile r
             else if Bands img \<le> 2 then SGrayV2MicroICCProfilePath E
             else SRGBV2MicroICCProfilePath E))"
proof -
  have a: "snd (ExportWebp E params r w) = params"
    by (simp add: ExportWebp_def Let_def)
  have b: "fst (snd (fst (ExportWebp E params r w))) = r"
    by (simp add: ExportWebp_def Let_def exportWith_ref)
  have c: "deref w (image' r) \<noteq> None \<longrightarrow>
        trace (snd (snd (fst (ExportWebp E params r w))))
          = trace w @ [Encode (SaveWebP
              ((case params of None \<Rightarrow> NewWebpExportParams | Some p \<Rightarrow> p)
                 \<lparr>webpIccProfile := optimizedIccProfile r\<rparr>))]"
    by (simp add: ExportWebp_def Let_def exportWith_trace)
  have d: "\<forall>img. deref w (image' r) = Some img \<longrightarrow>
        optimizedIccProfile (refOf (OptimizeICCProfile E r w))
          = (if \<not> icc_profile img \<and> Type img \<noteq> InterpretationCMYK then optimizedIccProfile r
             else if Bands img \<le> 2 then SGrayV2MicroICCProfilePath E
             else SRGBV2MicroICCProfilePath E)"
    using OptimizeICCProfile_profile by blast
  from a b c d show ?thesis by blast
qed

theorem ExportWebp_attaches_profile_witness:
  "optimizedIccProfile (refOf (OptimizeICCProfile demoEnv photoHandle world0))
     = ''srgb_v2_micro.icc''
   \<and> snd (ExportWebp demoEnv (Some callerWebp)
            (refOf (OptimizeICCProfile demoEnv photoHandle world0))
            (worldOf (OptimizeICCProfile demoEnv photoHandle world0))) = Some callerWebp
   \<and> last (trace (snd (snd (fst (ExportWebp demoEnv (Some callerWebp)
            (refOf (OptimizeICCProfile demoEnv photoHandle world0))
            (worldOf (OptimizeICCProfile demoEnv photoHandle world0)))))))
       = Encode (SaveWebP (callerWebp\<lparr>webpIccProfile := ''srgb_v2_micro.icc''\<rparr>))"
proof -
  have live: "deref (worldOf (OptimizeICCProfile demoEnv photoHandle world0))
                (image' (refOf (OptimizeICCProfile demoEnv photoHandle world0))) \<noteq> None"
    by (simp add: opt_photo refOf_def worldOf_def deref_def)
  have p: "optimizedIccProfile (refOf (OptimizeICCProfile demoEnv photoHandle world0))
             = ''srgb_v2_micro.icc''"
    by (simp add: opt_photo refOf_def)
  show ?thesis
    using live p ExportWebp_attaches_profile [of demoEnv "Some callerWebp"
            "refOf (OptimizeICCProfile demoEnv photoHandle world0)"
            "worldOf (OptimizeICCProfile demoEnv photoHandle world0)"]
    by simp
qed

lemmas export_defs = ExportNative_def ExportJpeg_def ExportPng_def ExportWebp_def ExportHeif_def
        ExportTiff_def ExportGIF_def ExportAvif_def ExportJp2k_def

lemma ExportNative_ref: "fst (snd (ExportNative E r w)) = r"
  by (cases "format r") (simp_all add: export_defs Let_def exportWith_ref)

lemma ExportNative_request:
  "deref w (image' r) \<noteq> None \<Longrightarrow>
     \<exists>q. trace (snd (snd (ExportNative E r w))) = trace w @ [Encode q]
        \<and> codecOf q = (if encodable (format r) then format r else ImageTypeJPEG)
        \<and> (\<not> encodable (format r) \<longrightarrow> q = SaveJPEG NewJpegExportParams)"
  by (cases "format r") (simp_all add: export_defs Let_def exportWith_trace)

text \<open>
  Claim C6. With nil parameters, or with \<^verbatim>\<open>Format\<close> set to \<^verbatim>\<open>ImageTypeUnknown\<close>,
  \<^verbatim>\<open>Export\<close> is \<^verbatim>\<open>ExportNative\<close>. On a live Handle it makes exactly one encode call,
  addressed to the codec of the Handle's recorded format when that format has an encoder
  (JPEG, PNG, WEBP, HEIF, TIFF, AVIF, JP2K, GIF), and otherwise to the JPEG encoder with
  the default JPEG parameter set. The Handle is returned unchanged.
\<close>

theorem Export_default_dispatch:
  "(params = None \<or> (\<exists>p. params = Some p \<and> Format p = ImageTypeUnknown)) \<longrightarrow>
     Export E params r w = ExportNative E r w
     \<and> fst (snd (Export E params r w)) = r
     \<and> (deref w (image' r) \<noteq> None \<longrightarrow>
          (\<exists>q. trace (snd (snd (Export E params r w))) = trace w @ [Encode q]
             \<and> codecOf q = (if encodable (format r) then format r else ImageTypeJPEG)
             \<and> (\<not> encodable (format r) \<longrightarrow> q = SaveJPEG NewJpegExportParams)))"
proof (intro impI)
  assume h: "params = None \<or> (\<exists>p. params = Some p \<and> Format p = ImageTypeUnknown)"
  then have e: "Export E params r w = ExportNative E r w"
    by (auto simp: Export_def)
  show "Export E params r w = ExportNative E r w
     \<and> fst (snd (Export E params r w)) = r
     \<and> (deref w (image' r) \<noteq> None \<longrightarrow>
          (\<exists>q. trace (snd (snd (Export E params r w))) = trace w @ [Encode q]
             \<and> codecOf q = (if encodable (format r) then format r else ImageTypeJPEG)
             \<and> (\<not> encodable (format r) \<longrightarrow> q = SaveJPEG NewJpegExportParams)))"
    unfolding e using ExportNative_ref [of E r w] ExportNative_request [of w r E] by blast
qed

lemma export_anim:
  "Export demoEnv None animHandle world0 =
     ((Some [100, 240],
       Some \<lparr>mdFormat = ImageTypeGIF, mdWidth = 100, mdHeight = 240,
         mdColorspace = InterpretationSRGB, mdOrientation = 1, mdPages = 3\<rparr>, None),
      animHandle, world0\<lparr>trace := [Encode (SaveGIF (NewGifExportParams demoEnv))]\<rparr>)"
  by (simp add: Export_def ExportNative_def ExportGIF_def exportWith_def
      callEncode_def newMetadata_def Pages_def vipsGetImageNPages_def deref_def
      demoEnv_def animHandle_def world0_def animation_def)

lemma export_vector:
  "Export demoEnv None vectorHandle world0 =
     ((Some [100, 100],
       Some \<lparr>mdFormat = ImageTypeJPEG, mdWidth = 100, mdHeight = 100,
         mdColorspace = InterpretationSRGB, mdOrientation = 1, mdPages = 1\<rparr>, None),
      vectorHandle, world0\<lparr>trace := [Encode (SaveJPEG NewJpegExportParams)]\<rparr>)"
  by (simp add: Export_def ExportNative_def ExportJpeg_def exportWith_def
      callEncode_def newMetadata_def Pages_def vipsGetImageNPages_def deref_def
      demoEnv_def vectorHandle_def world0_def photo_def)

theorem Export_default_dispatch_witness:
  "Export demoEnv None animHandle world0 = ExportNative demoEnv animHandle world0
   \<and> trace (snd (snd (Export demoEnv None animHandle world0)))
     = [Encode (SaveGIF (NewGifExportParams demoEnv))]
   \<and> Export demoEnv None vectorHandle world0 = ExportNative demoEnv vectorHandle world0
   \<and> trace (snd (snd (Export demoEnv None vectorHandle world0)))
     = [Encode (SaveJPEG NewJpegExportParams)]
   \<and> fst (fst (Export demoEnv None vectorHandle world0)) = Some [100, 100]"
proof -
  have a: "Export demoEnv None animHandle world0 = ExportNative demoEnv animHandle world0"
    using Export_default_dispatch [of None demoEnv animHandle world0] by blast
  have v: "Export demoEnv None vectorHandle world0 = ExportNative demoEnv vectorHandle world0"
    using Export_default_dispatch [of None demoEnv vectorHandle world0] by blast
  have t: "trace (snd (snd (Export demoEnv None animHandle world0)))
             = [Encode (SaveGIF (NewGifExportParams demoEnv))]
           \<and> trace (snd (snd (Export demoEnv None vectorHandle world0)))
             = [Encode (SaveJPEG NewJpegExportParams)]
           \<and> fst (fst (Export demoEnv None vectorHandle world0)) = Some [100, 100]"
    by (simp add: export_anim export_vector)
  from a v t show ?thesis by blast
qed

section \<open>The pre-multiplication tracker\<close>

lemma PremultiplyAlpha_noalpha:
  "HasAlpha r w = Some False \<Longrightarrow> PremultiplyAlpha E r w = (None, r, w)"
  by (simp add: PremultiplyAlpha_def HasAlpha_def)

lemma PremultiplyAlpha_active:
  "preMultiplication r \<noteq> None \<Longrightarrow> PremultiplyAlpha E r w = (None, r, w)"
  by (simp add: PremultiplyAlpha_def)

lemma PremultiplyAlpha_ok:
  assumes "preMultiplication r = None" "HasAlpha r w = Some True"
    and "PremultiplyAlpha E r w = (None, r1, w1)"
  shows "\<exists>a out. image' r = Some a \<and> a < length (heap w)
        \<and> prim E OpPremultiplyAlpha (heap w ! a) = Inr out
        \<and> r1 = r\<lparr>preMultiplication := Some \<lparr>bandFormat = BandFmt (heap w ! a)\<rparr>,
                  image' := Some (length (heap w))\<rparr>
        \<and> heap w1 = heap w @ [out]
        \<and> trace w1 = trace w @ [Invoke OpPremultiplyAlpha, Release a]"
  using assms
  by (auto simp: PremultiplyAlpha_def HasAlpha_def vipsHasAlpha_def BandFormat'_def deref_def
      setImage_def clearImage_def
      split: option.splits prod.splits sum.splits if_splits dest!: callPrim_ok)

lemma UnpremultiplyAlpha_ok:
  assumes "preMultiplication r = Some st"
    and "UnpremultiplyAlpha E r w = (None, r2, w2)"
  shows "\<exists>a u out. image' r = Some a \<and> a < length (heap w)
        \<and> prim E OpUnpremultiplyAlpha (heap w ! a) = Inr u
        \<and> prim E (OpCast (bandFormat st)) u = Inr out
        \<and> r2 = r\<lparr>preMultiplication := None, image' := Some (Suc (length (heap w)))\<rparr>
        \<and> heap w2 = heap w @ [u, out]
        \<and> trace w2 = trace w @ [Invoke OpUnpremultiplyAlpha, Invoke (OpCast (bandFormat st)),
                                 Release a, Release (length (heap w))]"
  using assms
  by (auto simp: UnpremultiplyAlpha_def setImage_def clearImage_def nth_append
      split: option.splits prod.splits sum.splits if_splits dest!: callPrim_ok)

lemma UnpremultiplyAlpha_inactive:
  "preMultiplication r = None \<Longrightarrow> UnpremultiplyAlpha E r w = (None, r, w)"
  by (simp add: UnpremultiplyAlpha_def)

section \<open>Pre-multiplication round trip\<close>

lemma premultiplied_value:
  "premultiplied =
     (None,
      animHandle\<lparr>preMultiplication := Some \<lparr>bandFormat = BandFormatUchar\<rparr>, image' := Some 2\<rparr>,
      \<lparr>heap = [animation, photo, animation\<lparr>BandFmt := BandFormatOther 6\<rparr>],
       trace = [Invoke OpPremultiplyAlpha, Release 0]\<rparr>)"
  by (simp add: premultiplied_def PremultiplyAlpha_def vipsHasAlpha_def BandFormat'_def
      callPrim_def deref_def setImage_def clearImage_def
      demoEnv_def animHandle_def world0_def animation_def)

lemma unpremultiplied_value:
  "UnpremultiplyAlpha demoEnv (refOf premultiplied) (worldOf premultiplied) =
     (None,
      animHandle\<lparr>preMultiplication := None, image' := Some 4\<rparr>,
      \<lparr>heap = [animation, photo, animation\<lparr>BandFmt := BandFormatOther 6\<rparr>,
               animation\<lparr>BandFmt := BandFormatOther 6\<rparr>, animation],
       trace = [Invoke OpPremultiplyAlpha, Release 0, Invoke OpUnpremultiplyAlpha,
                Invoke (OpCast BandFormatUchar), Release 2, Release 3]\<rparr>)"
  by (simp add: premultiplied_value refOf_def worldOf_def UnpremultiplyAlpha_def
      callPrim_def deref_def setImage_def clearImage_def
      demoEnv_def animHandle_def animation_def)

lemma pair_on_premultiplied:
  "premultiplyPair demoEnv (refOf premultiplied) (worldOf premultiplied)
     = UnpremultiplyAlpha demoEnv (refOf premultiplied) (worldOf premultiplied)"
proof -
  have "preMultiplication (refOf premultiplied) \<noteq> None"
    by (simp add: premultiplied_value refOf_def)
  then show ?thesis
    by (simp add: premultiplyPair_def andThen_def PremultiplyAlpha_active)
qed

lemma pair_on_animation:
  "premultiplyPair demoEnv animHandle world0
     = UnpremultiplyAlpha demoEnv (refOf premultiplied) (worldOf premultiplied)"
  using premultiplied_value
  by (simp add: premultiplyPair_def andThen_def premultiplied_def refOf_def worldOf_def)

lemma castDelivers_demo: "castDelivers demoEnv"
  by (simp add: castDelivers_def demoEnv_def)

text \<open>
  Claim C2, as the code has it. Take a Handle whose image has an alpha channel, a cast
  primitive that delivers the band format it is asked for, and a successful
  \<^verbatim>\<open>PremultiplyAlpha\<close> followed immediately by a successful \<^verbatim>\<open>UnpremultiplyAlpha\<close>.
  Afterwards the tracker is cleared, and the reported band format is the one reported
  before the pair when the tracker was inactive at that moment; when the tracker was
  already active, it is the band format that the tracker had recorded. For an image
  without an alpha channel \<^verbatim>\<open>PremultiplyAlpha\<close> returns nil and leaves the Handle and the
  native world, trace included, as they were: no primitive is invoked.
\<close>

theorem premultiply_pair:
  "(castDelivers E \<and> HasAlpha r w = Some True \<and> errOf (premultiplyPair E r w) = None
    \<longrightarrow> preMultiplication (refOf (premultiplyPair E r w)) = None
        \<and> BandFormat' (refOf (premultiplyPair E r w)) (worldOf (premultiplyPair E r w))
            = (case preMultiplication r of
                 None \<Rightarrow> BandFormat' r w
               | Some st \<Rightarrow> Some (bandFormat st)))
   \<and> (HasAlpha r w = Some False \<longrightarrow> PremultiplyAlpha E r w = (None, r, w))"
proof (rule conjI; rule impI)
  assume "HasAlpha r w = Some False"
  then show "PremultiplyAlpha E r w = (None, r, w)" by (rule PremultiplyAlpha_noalpha)
next
  assume h: "castDelivers E \<and> HasAlpha r w = Some True \<and> errOf (premultiplyPair E r w) = None"
  then have h2: "HasAlpha r w = Some True" by simp
  obtain r1 w1 where p: "PremultiplyAlpha E r w = (None, r1, w1)"
    using h by (cases "PremultiplyAlpha E r w")
      (auto simp: errOf_def premultiplyPair_def andThen_def split: option.splits)
  have pair: "premultiplyPair E r w = UnpremultiplyAlpha E r1 w1"
    by (simp add: premultiplyPair_def andThen_def p)
  obtain r2 w2 where u: "UnpremultiplyAlpha E r1 w1 = (None, r2, w2)"
    using h unfolding pair by (cases "UnpremultiplyAlpha E r1 w1") (auto simp: errOf_def)
  have goal: "preMultiplication r2 = None
     \<and> BandFormat' r2 w2 = (case preMultiplication r of
                 None \<Rightarrow> BandFormat' r w
               | Some st \<Rightarrow> Some (bandFormat st))"
  proof (cases "preMultiplication r")
    case None
    from PremultiplyAlpha_ok [OF None h2 p] obtain a out where
      a: "image' r = Some a" "a < length (heap w)"
        "r1 = r\<lparr>preMultiplication := Some \<lparr>bandFormat = BandFmt (heap w ! a)\<rparr>,
                    image' := Some (length (heap w))\<rparr>"
        "heap w1 = heap w @ [out]"
      by blast
    have st: "preMultiplication r1 = Some \<lparr>bandFormat = BandFmt (heap w ! a)\<rparr>"
      by (simp add: a)
    from UnpremultiplyAlpha_ok [OF st u] obtain u' out' where
      b: "prim E (OpCast (BandFmt (heap w ! a))) u' = Inr out'"
         "r2 = r1\<lparr>preMultiplication := None, image' := Some (Suc (length (heap w1)))\<rparr>"
         "heap w2 = heap w1 @ [u', out']"
      by auto
    have fmt: "BandFmt out' = BandFmt (heap w ! a)"
      using h b(1) by (auto simp: castDelivers_def)
    have "BandFormat' r2 w2 = BandFormat' r w"
      by (simp add: BandFormat'_def deref_def a b fmt nth_append)
    moreover have "preMultiplication r2 = None"
      by (simp add: b)
    ultimately show ?thesis by (simp add: None)
  next
    case (Some st)
    then have "PremultiplyAlpha E r w = (None, r, w)"
      by (simp add: PremultiplyAlpha_active)
    with p have same: "r1 = r" "w1 = w" by simp_all
    from UnpremultiplyAlpha_ok [OF Some u [unfolded same]] obtain u' out' where
      b: "prim E (OpCast (bandFormat st)) u' = Inr out'"
         "r2 = r\<lparr>preMultiplication := None, image' := Some (Suc (length (heap w)))\<rparr>"
         "heap w2 = heap w @ [u', out']"
      by auto
    have fmt: "BandFmt out' = bandFormat st"
      using h b(1) by (auto simp: castDelivers_def)
    have "BandFormat' r2 w2 = Some (bandFormat st)"
      by (simp add: BandFormat'_def deref_def b fmt nth_append)
    moreover have "preMultiplication r2 = None"
      by (simp add: b)
    ultimately show ?thesis by (simp add: Some)
  qed
  then show "preMultiplication (refOf (premultiplyPair E r w)) = None
        \<and> BandFormat' (refOf (premultiplyPair E r w)) (worldOf (premultiplyPair E r w))
            = (case preMultiplication r of
                 None \<Rightarrow> BandFormat' r w
               | Some st \<Rightarrow> Some (bandFormat st))"
    by (simp add: pair u refOf_def worldOf_def)
qed

theorem premultiply_pair_witness:
  "BandFormat' animHandle world0 = Some BandFormatUchar
   \<and> preMultiplication (refOf (premultiplyPair demoEnv animHandle world0)) = None
   \<and> BandFormat' (refOf (premultiplyPair demoEnv animHandle world0))
                  (worldOf (premultiplyPair demoEnv animHandle world0))
       = Some BandFormatUchar
   \<and> PremultiplyAlpha demoEnv photoHandle world0 = (None, photoHandle, world0)"
proof -
  have pre: "castDelivers demoEnv \<and> HasAlpha animHandle world0 = Some True
      \<and> errOf (premultiplyPair demoEnv animHandle world0) = None"
    unfolding pair_on_animation unpremultiplied_value
    by (simp add: castDelivers_demo errOf_def HasAlpha_def vipsHasAlpha_def
        deref_def animHandle_def world0_def animation_def)
  have inactive: "preMultiplication animHandle = None"
    by (simp add: animHandle_def)
  have noalpha: "HasAlpha photoHandle world0 = Some False"
    by (simp add: HasAlpha_def vipsHasAlpha_def deref_def photoHandle_def world0_def photo_def)
  have b0: "BandFormat' animHandle world0 = Some BandFormatUchar"
    by (simp add: BandFormat'_def deref_def animHandle_def world0_def animation_def)
  show ?thesis
    using pre inactive noalpha b0 premultiply_pair [of demoEnv animHandle world0]
      premultiply_pair [of demoEnv photoHandle world0]
    by simp
qed

text \<open>
  The band format is not always the one reported before the pair. The animation Handle
  after a first \<^verbatim>\<open>PremultiplyAlpha\<close> has an alpha channel, an active tracker that recorded
  unsigned char, and reports float (format 6). A pair of calls on it succeeds, the first
  one as a no-op, and leaves the band format unsigned char.
\<close>

theorem premultiply_pair_counterexample:
  "HasAlpha (refOf premultiplied) (worldOf premultiplied) = Some True
   \<and> errOf (PremultiplyAlpha demoEnv (refOf premultiplied) (worldOf premultiplied)) = None
   \<and> errOf (premultiplyPair demoEnv (refOf premultiplied) (worldOf premultiplied)) = None
   \<and> preMultiplication
        (refOf (premultiplyPair demoEnv (refOf premultiplied) (worldOf premultiplied))) = None
   \<and> BandFormat' (refOf premultiplied) (worldOf premultiplied) = Some (BandFormatOther 6)
   \<and> BandFormat'
        (refOf (premultiplyPair demoEnv (refOf premultiplied) (worldOf premultiplied)))
        (worldOf (premultiplyPair demoEnv (refOf premultiplied) (worldOf premultiplied)))
       = Some BandFormatUchar"
proof -
  have act: "preMultiplication (refOf premultiplied) \<noteq> None"
    by (simp add: premultiplied_value refOf_def)
  have again: "errOf (PremultiplyAlpha demoEnv (refOf premultiplied) (worldOf premultiplied)) = None"
    by (simp add: PremultiplyAlpha_active [OF act] errOf_def)
  have rest: "HasAlpha (refOf premultiplied) (worldOf premultiplied) = Some True
     \<and> BandFormat' (refOf premultiplied) (worldOf premultiplied) = Some (BandFormatOther 6)"
    by (simp add: premultiplied_value refOf_def worldOf_def HasAlpha_def vipsHasAlpha_def
        BandFormat'_def deref_def animHandle_def animation_def)
  have after: "errOf (premultiplyPair demoEnv (refOf premultiplied) (worldOf premultiplied)) = None
     \<and> preMultiplication
        (refOf (premultiplyPair demoEnv (refOf premultiplied) (worldOf premultiplied))) = None
     \<and> BandFormat'
        (refOf (premultiplyPair demoEnv (refOf premultiplied) (worldOf premultiplied)))
        (worldOf (premultiplyPair demoEnv (refOf premultiplied) (worldOf premultiplied)))
       = Some BandFormatUchar"
    unfolding pair_on_premultiplied unpremultiplied_value
    by (simp add: refOf_def worldOf_def errOf_def BandFormat'_def deref_def animation_def)
  from again rest after show ?thesis by blast
qed

section \<open>Page metadata across the mutation steps\<close>

lemma andThen_None:
  "andThen m k = (None, r', w') \<Longrightarrow> \<exists>r1 w1. m = (None, r1, w1) \<and> k r1 w1 = (None, r', w')"
  by (auto simp: andThen_def split: prod.splits option.splits)

lemma SetPageHeight_ok:
  "SetPageHeight E h r w = (None, r', w') \<Longrightarrow>
     \<exists>a out. image' r = Some a \<and> a < length (heap w)
        \<and> prim E OpCopyImage (heap w ! a) = Inr out
        \<and> r' = r\<lparr>image' := Some (length (heap w))\<rparr>
        \<and> heap w' = heap w @ [out\<lparr>page_height := h\<rparr>]
        \<and> trace w' = trace w @ [Invoke OpCopyImage, SetPageHeightAttr (length (heap w)) h,
                                 Release a]"
  by (auto simp: SetPageHeight_def setImage_def clearImage_def vipsSetPageHeight_def Let_def
      split: prod.splits sum.splits if_splits dest!: callPrim_ok)


lemma PremultiplyAlpha_keeps:
  assumes k: "keepsPages E OpPremultiplyAlpha"
    and p: "PremultiplyAlpha E r w = (None, r1, w1)"
  shows "format r1 = format r
     \<and> vipsGetImageNPages w1 (image' r1) = vipsGetImageNPages w (image' r)
     \<and> vipsGetPageHeight w1 (image' r1) = vipsGetPageHeight w (image' r)
     \<and> (\<exists>ev. trace w1 = trace w @ ev \<and> \<not> list_ex writesPageHeight ev)"
proof (cases "preMultiplication r = None \<and> HasAlpha r w = Some True")
  case True
  then have t1: "preMultiplication r = None" and t2: "HasAlpha r w = Some True"
    by simp_all
  from PremultiplyAlpha_ok [OF t1 t2 p] obtain a out where
    a: "image' r = Some a" "a < length (heap w)"
       "prim E OpPremultiplyAlpha (heap w ! a) = Inr out"
       "r1 = r\<lparr>preMultiplication := Some \<lparr>bandFormat = BandFmt (heap w ! a)\<rparr>,
                  image' := Some (length (heap w))\<rparr>"
       "heap w1 = heap w @ [out]"
       "trace w1 = trace w @ [Invoke OpPremultiplyAlpha, Release a]"
    by blast
  from k a(3) have "n_pages out = n_pages (heap w ! a) \<and> page_height out = page_height (heap w ! a)"
    by (auto simp: keepsPages_def)
  then show ?thesis
    by (simp add: a vipsGetImageNPages_def vipsGetPageHeight_def deref_def)
next
  case False
  then have "PremultiplyAlpha E r w = (None, r, w) \<or> errOf (PremultiplyAlpha E r w) \<noteq> None"
    by (auto simp: PremultiplyAlpha_def HasAlpha_def errOf_def split: option.splits)
  with p have "r1 = r \<and> w1 = w" by (auto simp: errOf_def)
  then show ?thesis by simp
qed

lemma UnpremultiplyAlpha_keeps:
  assumes k: "keepsPages E OpUnpremultiplyAlpha" "\<forall>fmt. keepsPages E (OpCast fmt)"
    and u: "UnpremultiplyAlpha E r w = (None, r2, w2)"
  shows "format r2 = format r
     \<and> vipsGetImageNPages w2 (image' r2) = vipsGetImageNPages w (image' r)
     \<and> vipsGetPageHeight w2 (image' r2) = vipsGetPageHeight w (image' r)
     \<and> (\<exists>ev. trace w2 = trace w @ ev \<and> \<not> list_ex writesPageHeight ev)"
proof (cases "preMultiplication r")
  case None
  with u have "r2 = r \<and> w2 = w" by (simp add: UnpremultiplyAlpha_def)
  then show ?thesis by simp
next
  case (Some st)
  from UnpremultiplyAlpha_ok [OF Some u] obtain a u' out where
    a: "image' r = Some a" "a < length (heap w)"
       "prim E OpUnpremultiplyAlpha (heap w ! a) = Inr u'"
       "prim E (OpCast (bandFormat st)) u' = Inr out"
       "r2 = r\<lparr>preMultiplication := None, image' := Some (Suc (length (heap w)))\<rparr>"
       "heap w2 = heap w @ [u', out]"
       "trace w2 = trace w @ [Invoke OpUnpremultiplyAlpha, Invoke (OpCast (bandFormat st)),
                                 Release a, Release (length (heap w))]"
    by blast
  from k a(3,4) have "n_pages out = n_pages (heap w ! a) \<and> page_height out = page_height (heap w ! a)"
    by (auto simp: keepsPages_def)
  then show ?thesis
    by (simp add: a vipsGetImageNPages_def vipsGetPageHeight_def deref_def nth_append)
qed

lemma ResizeWithVScale_steps:
  assumes "ResizeWithVScale E hScale vScale k r w = (None, r', w')"
  shows "\<exists>r1 w1 pages pageHeight r2 w2 r3 w3.
      PremultiplyAlpha E r w = (None, r1, w1)
    \<and> Pages r1 w1 = Some pages \<and> GetPageHeight r1 w1 = Some pageHeight
    \<and> mutate E (OpResizeWithVScale hScale vScale k) r1 w1 = (None, r2, w2)
    \<and> (if pages > 1
        then SetPageHeight E
               (f64_to_int E (f64_mul E (f64_of_int E pageHeight)
                  (if vScale \<noteq> f64_of_int E (- 1) then vScale else hScale))) r2 w2
        else (None, r2, w2)) = (None, r3, w3)
    \<and> UnpremultiplyAlpha E r3 w3 = (None, r', w')"
proof -
  from assms obtain r1 w1 where
    p: "PremultiplyAlpha E r w = (None, r1, w1)" and
    rest: "(case Pages r1 w1 of
         None \<Rightarrow> (Some NilDereference, r1, w1)
       | Some pages \<Rightarrow> (case GetPageHeight r1 w1 of
             None \<Rightarrow> (Some NilDereference, r1, w1)
           | Some pageHeight \<Rightarrow>
               andThen (mutate E (OpResizeWithVScale hScale vScale k) r1 w1) (\<lambda>r2 w2.
               andThen
                 (if pages > 1
                  then (let scale = (if vScale \<noteq> f64_of_int E (- 1) then vScale else hScale);
                            newPageHeight = f64_to_int E (f64_mul E (f64_of_int E pageHeight) scale)
                        in SetPageHeight E newPageHeight r2 w2)
                  else (None, r2, w2))
                 (\<lambda>r3 w3. UnpremultiplyAlpha E r3 w3)))) = (None, r', w')"
    unfolding ResizeWithVScale_def by (blast dest: andThen_None)
  from rest obtain pages where pg: "Pages r1 w1 = Some pages"
    by (cases "Pages r1 w1") auto
  from rest pg obtain pageHeight where ph: "GetPageHeight r1 w1 = Some pageHeight"
    by (cases "GetPageHeight r1 w1") auto
  from rest pg ph have "andThen (mutate E (OpResizeWithVScale hScale vScale k) r1 w1) (\<lambda>r2 w2.
               andThen
                 (if pages > 1
                  then (let scale = (if vScale \<noteq> f64_of_int E (- 1) then vScale else hScale);
                            newPageHeight = f64_to_int E (f64_mul E (f64_of_int E pageHeight) scale)
                        in SetPageHeight E newPageHeight r2 w2)
                  else (None, r2, w2))
                 (\<lambda>r3 w3. UnpremultiplyAlpha E r3 w3)) = (None, r', w')"
    by simp
  from andThen_None [OF this] obtain r2 w2 where
    m: "mutate E (OpResizeWithVScale hScale vScale k) r1 w1 = (None, r2, w2)" and
    rest2: "andThen
                 (if pages > 1
                  then (let scale = (if vScale \<noteq> f64_of_int E (- 1) then vScale else hScale);
                            newPageHeight = f64_to_int E (f64_mul E (f64_of_int E pageHeight) scale)
                        in SetPageHeight E newPageHeight r2 w2)
                  else (None, r2, w2))
                 (\<lambda>r3 w3. UnpremultiplyAlpha E r3 w3) = (None, r', w')"
    by blast
  from andThen_None [OF rest2] obtain r3 w3 where
    s: "(if pages > 1
        then SetPageHeight E
               (f64_to_int E (f64_mul E (f64_of_int E pageHeight)
                  (if vScale \<noteq> f64_of_int E (- 1) then vScale else hScale))) r2 w2
        else (None, r2, w2)) = (None, r3, w3)" and
    u: "UnpremultiplyAlpha E r3 w3 = (None, r', w')"
    unfolding Let_def by blast
  from p pg ph m s u show ?thesis by blast
qed

section \<open>Worked runs under the reference environment\<close>

lemmas eval_defs =
  ResizeWithVScale_def Rotate_def Modulate_def andThen_def mutate_def SetPageHeight_def
  PremultiplyAlpha_def UnpremultiplyAlpha_def ToColorSpace_def Linear_def Flip_def Grid_def
  Pages_def PageHeight_def GetPageHeight_def Width_def ColorSpace_def Interpretation'_def
  HasAlpha_def BandFormat'_def vipsHasAlpha_def vipsGetImageNPages_def vipsGetPageHeight_def
  callPrim_def deref_def setImage_def clearImage_def vipsSetPageHeight_def
  demoEnv_def truncate_def animHandle_def photoHandle_def world0_def animation_def photo_def

lemma resize_animation:
  "ResizeWithVScale demoEnv (1 / 2) (- 1) 0 animHandle world0 =
     (None, animHandle\<lparr>image' := Some 6\<rparr>,
      \<lparr>heap = [animation, photo,
               animation\<lparr>BandFmt := BandFormatOther 6\<rparr>,
               animation\<lparr>Xsize := 50, Ysize := 120, BandFmt := BandFormatOther 6\<rparr>,
               animation\<lparr>Xsize := 50, Ysize := 120, BandFmt := BandFormatOther 6,
                          page_height := 40\<rparr>,
               animation\<lparr>Xsize := 50, Ysize := 120, BandFmt := BandFormatOther 6,
                          page_height := 40\<rparr>,
               animation\<lparr>Xsize := 50, Ysize := 120, page_height := 40\<rparr>],
       trace = [Invoke OpPremultiplyAlpha, Release 0,
                Invoke (OpResizeWithVScale (1 / 2) (- 1) 0), Release 2,
                Invoke OpCopyImage, SetPageHeightAttr 4 40, Release 3,
                Invoke OpUnpremultiplyAlpha, Invoke (OpCast BandFormatUchar),
                Release 4, Release 5]\<rparr>)"
  by (simp add: eval_defs)

lemma resize_photo:
  "ResizeWithVScale demoEnv (1 / 2) (- 1) 0 photoHandle world0 =
     (None, photoHandle\<lparr>image' := Some 2\<rparr>,
      \<lparr>heap = [animation, photo, photo\<lparr>Xsize := 50, Ysize := 50\<rparr>],
       trace = [Invoke (OpResizeWithVScale (1 / 2) (- 1) 0), Release 1]\<rparr>)"
  by (simp add: eval_defs)

lemma bracketKeepsPages_demo: "bracketKeepsPages demoEnv"
  by (simp add: bracketKeepsPages_def keepsPages_def demoEnv_def)

section \<open>Resizing and page height\<close>

lemma newEvents_append: "trace w' = trace w @ ev \<Longrightarrow> newEvents w w' = ev"
  by (simp add: newEvents_def)

text \<open>
  Claim C3. Let the primitives of the pre-multiplication bracket carry the page metadata
  over, and let \<^verbatim>\<open>ResizeWithVScale(hScale, vScale, kernel)\<close> succeed on a Handle that
  reports \<open>n\<close> pages and page height \<open>h\<close>. If \<open>n > 1\<close>, the page height reported afterwards
  is \<^verbatim>\<open>int(float64(h) * scale)\<close>, where \<^verbatim>\<open>scale\<close> is \<^verbatim>\<open>vScale\<close>, or \<^verbatim>\<open>hScale\<close> when
  \<^verbatim>\<open>vScale\<close> is \<open>-1\<close>; the call writes the page-height attribute exactly once, with that
  value, and the write comes after the invocation of the resize primitive in the native
  trace of the call. If \<open>n \<le> 1\<close>, the call writes no page-height attribute.
\<close>

theorem ResizeWithVScale_page_height:
  "bracketKeepsPages E \<and> Pages r w = Some n \<and> PageHeight r w = Some h
     \<and> errOf (ResizeWithVScale E hScale vScale k r w) = None \<longrightarrow>
   (1 < n \<longrightarrow>
      PageHeight (refOf (ResizeWithVScale E hScale vScale k r w))
                 (worldOf (ResizeWithVScale E hScale vScale k r w))
        = Some (f64_to_int E (f64_mul E (f64_of_int E h)
                  (if vScale \<noteq> f64_of_int E (- 1) then vScale else hScale)))
      \<and> (\<exists>ev1 ev2 ev3 a.
            newEvents w (worldOf (ResizeWithVScale E hScale vScale k r w))
              = ev1 @ Invoke (OpResizeWithVScale hScale vScale k) # ev2
                  @ SetPageHeightAttr a (f64_to_int E (f64_mul E (f64_of_int E h)
                      (if vScale \<noteq> f64_of_int E (- 1) then vScale else hScale))) # ev3
            \<and> \<not> list_ex writesPageHeight (ev1 @ ev2 @ ev3)))
   \<and> (n \<le> 1 \<longrightarrow>
        \<not> list_ex writesPageHeight
            (newEvents w (worldOf (ResizeWithVScale E hScale vScale k r w))))"
proof (rule impI)
  let ?newh = "f64_to_int E (f64_mul E (f64_of_int E h)
                  (if vScale \<noteq> f64_of_int E (- 1) then vScale else hScale))"
  assume h: "bracketKeepsPages E \<and> Pages r w = Some n \<and> PageHeight r w = Some h
     \<and> errOf (ResizeWithVScale E hScale vScale k r w) = None"
  then have kp: "keepsPages E OpPremultiplyAlpha" and ku: "keepsPages E OpUnpremultiplyAlpha"
    and kc: "\<forall>fmt. keepsPages E (OpCast fmt)"
    by (simp_all add: bracketKeepsPages_def)
  obtain r' w' where res: "ResizeWithVScale E hScale vScale k r w = (None, r', w')"
    using h by (cases "ResizeWithVScale E hScale vScale k r w") (auto simp: errOf_def)
  from ResizeWithVScale_steps [OF res] obtain r1 w1 pages pageHeight r2 w2 r3 w3 where
    p: "PremultiplyAlpha E r w = (None, r1, w1)" and
    pg: "Pages r1 w1 = Some pages" and ph: "GetPageHeight r1 w1 = Some pageHeight" and
    m: "mutate E (OpResizeWithVScale hScale vScale k) r1 w1 = (None, r2, w2)" and
    s: "(if pages > 1
        then SetPageHeight E
               (f64_to_int E (f64_mul E (f64_of_int E pageHeight)
                  (if vScale \<noteq> f64_of_int E (- 1) then vScale else hScale))) r2 w2
        else (None, r2, w2)) = (None, r3, w3)" and
    u: "UnpremultiplyAlpha E r3 w3 = (None, r', w')"
    by blast
  from PremultiplyAlpha_keeps [OF kp p] obtain e1 where
    k1: "format r1 = format r"
        "vipsGetImageNPages w1 (image' r1) = vipsGetImageNPages w (image' r)"
        "vipsGetPageHeight w1 (image' r1) = vipsGetPageHeight w (image' r)"
        "trace w1 = trace w @ e1" "\<not> list_ex writesPageHeight e1"
    by blast
  have pages: "pages = n" using pg h k1 by (auto simp: Pages_def split: if_splits)
  have pageHeight: "pageHeight = h" using ph h k1 by (auto simp: GetPageHeight_def PageHeight_def)
  from mutate_ok [OF m] obtain a1 where
    t2: "trace w2 = trace w1 @ [Invoke (OpResizeWithVScale hScale vScale k), Release a1]"
    by blast
  from UnpremultiplyAlpha_keeps [OF ku kc u] obtain e4 where
    k4: "vipsGetPageHeight w' (image' r') = vipsGetPageHeight w3 (image' r3)"
        "trace w' = trace w3 @ e4" "\<not> list_ex writesPageHeight e4"
    by blast
  have multi: "PageHeight r' w' = Some ?newh
      \<and> (\<exists>ev1 ev2 ev3 a.
            newEvents w w' = ev1 @ Invoke (OpResizeWithVScale hScale vScale k) # ev2
                  @ SetPageHeightAttr a ?newh # ev3
            \<and> \<not> list_ex writesPageHeight (ev1 @ ev2 @ ev3))" if "1 < n"
  proof -
    from s that have "SetPageHeight E ?newh r2 w2 = (None, r3, w3)"
      by (simp add: pages pageHeight)
    from SetPageHeight_ok [OF this] obtain a2 out where
      s3: "r3 = r2\<lparr>image' := Some (length (heap w2))\<rparr>"
          "heap w3 = heap w2 @ [out\<lparr>page_height := ?newh\<rparr>]"
          "trace w3 = trace w2 @ [Invoke OpCopyImage, SetPageHeightAttr (length (heap w2)) ?newh,
                                 Release a2]"
      by blast
    have "vipsGetPageHeight w3 (image' r3) = Some ?newh"
      by (simp add: s3 vipsGetPageHeight_def deref_def)
    then have a: "PageHeight r' w' = Some ?newh"
      by (simp add: PageHeight_def k4)
    have "trace w' = trace w @ (e1 @ Invoke (OpResizeWithVScale hScale vScale k)
             # [Release a1, Invoke OpCopyImage]
             @ SetPageHeightAttr (length (heap w2)) ?newh # (Release a2 # e4))"
      by (simp add: k4 s3 t2 k1)
    then have "newEvents w w' = e1 @ Invoke (OpResizeWithVScale hScale vScale k)
             # [Release a1, Invoke OpCopyImage]
             @ SetPageHeightAttr (length (heap w2)) ?newh # (Release a2 # e4)"
      by (rule newEvents_append)
    moreover have "\<not> list_ex writesPageHeight (e1 @ [Release a1, Invoke OpCopyImage] @ (Release a2 # e4))"
      using k1 k4 by simp
    ultimately show ?thesis using a by blast
  qed
  have single: "\<not> list_ex writesPageHeight (newEvents w w')" if "n \<le> 1"
  proof -
    from s that have "r3 = r2 \<and> w3 = w2" by (simp add: pages)
    then have "trace w' = trace w @ (e1 @ [Invoke (OpResizeWithVScale hScale vScale k), Release a1] @ e4)"
      by (simp add: k4 t2 k1)
    then have "newEvents w w' = e1 @ [Invoke (OpResizeWithVScale hScale vScale k), Release a1] @ e4"
      by (rule newEvents_append)
    then show ?thesis using k1 k4 by simp
  qed
  show "(1 < n \<longrightarrow>
      PageHeight (refOf (ResizeWithVScale E hScale vScale k r w))
                 (worldOf (ResizeWithVScale E hScale vScale k r w))
        = Some ?newh
      \<and> (\<exists>ev1 ev2 ev3 a.
            newEvents w (worldOf (ResizeWithVScale E hScale vScale k r w))
              = ev1 @ Invoke (OpResizeWithVScale hScale vScale k) # ev2
                  @ SetPageHeightAttr a ?newh # ev3
            \<and> \<not> list_ex writesPageHeight (ev1 @ ev2 @ ev3)))
   \<and> (n \<le> 1 \<longrightarrow>
        \<not> list_ex writesPageHeight
            (newEvents w (worldOf (ResizeWithVScale E hScale vScale k r w))))"
    using multi single by (simp add: res refOf_def worldOf_def)
qed

theorem ResizeWithVScale_page_height_witness:
  "Pages animHandle world0 = Some 3 \<and> PageHeight animHandle world0 = Some 80
   \<and> PageHeight (refOf (ResizeWithVScale demoEnv (1 / 2) (- 1) 0 animHandle world0))
                 (worldOf (ResizeWithVScale demoEnv (1 / 2) (- 1) 0 animHandle world0))
        = Some 40
   \<and> newEvents world0 (worldOf (ResizeWithVScale demoEnv (1 / 2) (- 1) 0 animHandle world0))
        = [Invoke OpPremultiplyAlpha, Release 0,
           Invoke (OpResizeWithVScale (1 / 2) (- 1) 0), Release 2,
           Invoke OpCopyImage, SetPageHeightAttr 4 40, Release 3,
           Invoke OpUnpremultiplyAlpha, Invoke (OpCast BandFormatUchar),
           Release 4, Release 5]
   \<and> Pages photoHandle world0 = Some 1
   \<and> \<not> list_ex writesPageHeight
        (newEvents world0 (worldOf (ResizeWithVScale demoEnv (1 / 2) (- 1) 0 photoHandle world0)))"
proof -
  have st: "Pages animHandle world0 = Some 3 \<and> PageHeight animHandle world0 = Some 80"
    by (simp add: Pages_def PageHeight_def vipsGetImageNPages_def vipsGetPageHeight_def
        deref_def animHandle_def world0_def animation_def)
  have ok: "errOf (ResizeWithVScale demoEnv (1 / 2) (- 1) 0 animHandle world0) = None"
    by (simp add: resize_animation errOf_def)
  have hyp: "bracketKeepsPages demoEnv \<and> Pages animHandle world0 = Some 3
     \<and> PageHeight animHandle world0 = Some 80
     \<and> errOf (ResizeWithVScale demoEnv (1 / 2) (- 1) 0 animHandle world0) = None"
    using st ok bracketKeepsPages_demo by blast
  have st1: "Pages photoHandle world0 = Some 1 \<and> PageHeight photoHandle world0 = Some 100"
    by (simp add: Pages_def PageHeight_def vipsGetImageNPages_def vipsGetPageHeight_def
        deref_def photoHandle_def world0_def photo_def)
  have ok1: "errOf (ResizeWithVScale demoEnv (1 / 2) (- 1) 0 photoHandle world0) = None"
    by (simp add: resize_photo errOf_def)
  have hyp1: "bracketKeepsPages demoEnv \<and> Pages photoHandle world0 = Some 1
     \<and> PageHeight photoHandle world0 = Some 100
     \<and> errOf (ResizeWithVScale demoEnv (1 / 2) (- 1) 0 photoHandle world0) = None"
    using st1 ok1 bracketKeepsPages_demo by blast
  have new: "f64_to_int demoEnv (f64_mul demoEnv (f64_of_int demoEnv 80)
                  (if (- 1 :: rat) \<noteq> f64_of_int demoEnv (- 1) then - 1 else 1 / 2)) = 40"
    by (simp add: demoEnv_def truncate_def)
  have multi: "PageHeight (refOf (ResizeWithVScale demoEnv (1 / 2) (- 1) 0 animHandle world0))
                 (worldOf (ResizeWithVScale demoEnv (1 / 2) (- 1) 0 animHandle world0))
        = Some 40"
    using hyp ResizeWithVScale_page_height [of demoEnv animHandle world0 3 80 "1 / 2" "- 1" 0]
    unfolding new by simp
  have single: "\<not> list_ex writesPageHeight
        (newEvents world0 (worldOf (ResizeWithVScale demoEnv (1 / 2) (- 1) 0 photoHandle world0)))"
    using hyp1 ResizeWithVScale_page_height [of demoEnv photoHandle world0 1 100 "1 / 2" "- 1" 0]
    by simp
  have events: "newEvents world0 (worldOf (ResizeWithVScale demoEnv (1 / 2) (- 1) 0 animHandle world0))
        = [Invoke OpPremultiplyAlpha, Release 0,
           Invoke (OpResizeWithVScale (1 / 2) (- 1) 0), Release 2,
           Invoke OpCopyImage, SetPageHeightAttr 4 40, Release 3,
           Invoke OpUnpremultiplyAlpha, Invoke (OpCast BandFormatUchar),
           Release 4, Release 5]"
    unfolding resize_animation by (simp add: worldOf_def newEvents_def world0_def)
  from hyp hyp1 multi single events show ?thesis by blast
qed

section \<open>Rotation of multi-page images\<close>









section \<open>What a call leaves in place\<close>














lemma SetPages_ok:
  "SetPages E n r w = (None, r', w') \<Longrightarrow>
     \<exists>a out. image' r = Some a \<and> a < length (heap w)
        \<and> prim E OpCopyImage (heap w ! a) = Inr out
        \<and> r' = r\<lparr>image' := Some (length (heap w))\<rparr>
        \<and> heap w' = (heap w @ [out])[a := (heap w ! a)\<lparr>n_pages := n\<rparr>]
        \<and> trace w' = trace w @ [Invoke OpCopyImage, SetNPagesAttr a n, Release a]"
  by (auto simp: SetPages_def setImage_def clearImage_def vipsSetImageNPages_def Let_def
      nth_append split: prod.splits sum.splits if_splits dest!: callPrim_ok)










text \<open>
  With a copy primitive that carries the page count over, a successful \<^verbatim>\<open>SetPages\<close>
  never changes what \<^verbatim>\<open>Pages\<close> answers.
\<close>

lemma SetPages_keeps_Pages:
  assumes k: "keepsNPages E" and s: "SetPages E n r w = (None, r', w')"
  shows "Pages r' w' = Pages r w"
proof -
  from SetPages_ok [OF s] obtain a out where
    a: "image' r = Some a" "a < length (heap w)"
       "prim E OpCopyImage (heap w ! a) = Inr out"
       "r' = r\<lparr>image' := Some (length (heap w))\<rparr>"
       "heap w' = (heap w @ [out])[a := (heap w ! a)\<lparr>n_pages := n\<rparr>]"
    by blast
  from k a(3) have "n_pages out = n_pages (heap w ! a)"
    by (auto simp: keepsNPages_def)
  then show ?thesis
    using a(2) by (simp add: a(1,4,5) Pages_def vipsGetImageNPages_def deref_def nth_append)
qed






















section \<open>Failed mutation calls\<close>




end
